theory Spec2Isabelle
  imports Main
begin

section \<open>Python values\<close>

text \<open>
  A Python \<^verbatim>\<open>str\<close> is a sequence of Unicode code points, so it is modelled as a list
  of naturals; \<open>ascii\<close> turns an ASCII literal of the source into such a sequence.
\<close>

type_synonym pystr = "nat list"

definition ascii :: "string \<Rightarrow> pystr" where
  "ascii s = map of_char s"

text \<open>
  The values that occur in the dictionaries of the program (\<^verbatim>\<open>Dict[str, Any]\<close>) and in
  parsed JSON. A dictionary keeps its items in insertion order. Floating-point values
  are not modelled.
\<close>

datatype pyval =
    PNone
  | PBool bool
  | PInt int
  | PStr pystr
  | PList "pyval list"
  | PDict "(pystr \<times> pyval) list"

type_synonym pydict = "(pystr \<times> pyval) list"

text \<open>
  Exceptions are values. Every constructor stands for an instance of Python's
  \<^verbatim>\<open>Exception\<close> class, which is what \<^verbatim>\<open>except Exception\<close> catches;
  \<open>ClientError\<close> is an exception of an external service with its message.
\<close>

datatype pyexc =
    TypeError
  | ValueError
  | IndexError
  | KeyError
  | UnicodeEncodeError
  | ClientError pystr

text \<open>
  Built-ins of the interpreter whose full definition lies outside the program:
  \<open>int_of_str\<close> is \<^verbatim>\<open>int()\<close> on a string (\<open>None\<close> where Python raises
  ValueError) and \<open>repr_container\<close> is \<^verbatim>\<open>str()\<close> of a list or dictionary.
  \<open>stdout_encodes\<close> says whether the encoding of standard output can encode a
  text; no encoding of standard output encodes a lone surrogate.
\<close>

record builtins =
  int_of_str :: "pystr \<Rightarrow> int option"
  repr_container :: "pyval \<Rightarrow> pystr"
  stdout_encodes :: "pystr \<Rightarrow> bool"

text \<open>
  \<^verbatim>\<open>print(s)\<close> raises UnicodeEncodeError when standard output cannot encode the
  text. It is modelled where the program prints text taken from a request; the other
  calls of \<^verbatim>\<open>print\<close> write fixed text, numbers, file names and the messages of
  exceptions, and are taken to succeed.
\<close>

definition py_print :: "builtins \<Rightarrow> pystr \<Rightarrow> pyexc + unit" where
  "py_print b s = (if stdout_encodes b s then Inr () else Inl UnicodeEncodeError)"

text \<open>\<^verbatim>\<open>d.get(k, default)\<close>\<close>

definition dict_get :: "pydict \<Rightarrow> pystr \<Rightarrow> pyval \<Rightarrow> pyval" where
  "dict_get d k dflt = (case map_of d k of None \<Rightarrow> dflt | Some v \<Rightarrow> v)"

text \<open>\<^verbatim>\<open>str(n)\<close> for an integer: decimal digits, with a minus sign when negative.\<close>

function str_nat :: "nat \<Rightarrow> pystr" where
  "str_nat n = (if n < 10 then [48 + n] else str_nat (n div 10) @ [48 + n mod 10])"
  by pat_completeness auto
termination
  by (relation "measure (\<lambda>n. n)") auto

declare str_nat.simps [simp del]

definition str_int :: "int \<Rightarrow> pystr" where
  "str_int i = (if i < 0 then 45 # str_nat (nat (- i)) else str_nat (nat i))"

text \<open>\<^verbatim>\<open>str(v)\<close>, which is also what an f-string and \<^verbatim>\<open>str.format\<close> insert for a value.\<close>

fun py_str :: "builtins \<Rightarrow> pyval \<Rightarrow> pystr" where
  "py_str b PNone = ascii ''None''"
| "py_str b (PBool t) = (if t then ascii ''True'' else ascii ''False'')"
| "py_str b (PInt i) = str_int i"
| "py_str b (PStr s) = s"
| "py_str b (PList xs) = repr_container b (PList xs)"
| "py_str b (PDict d) = repr_container b (PDict d)"

text \<open>\<^verbatim>\<open>int(v)\<close>\<close>

fun py_int :: "builtins \<Rightarrow> pyval \<Rightarrow> pyexc + int" where
  "py_int b (PInt i) = Inr i"
| "py_int b (PBool t) = Inr (if t then 1 else 0)"
| "py_int b (PStr s) = (case int_of_str b s of None \<Rightarrow> Inl ValueError | Some i \<Rightarrow> Inr i)"
| "py_int b PNone = Inl TypeError"
| "py_int b (PList xs) = Inl TypeError"
| "py_int b (PDict d) = Inl TypeError"

text \<open>\<^verbatim>\<open>sep.join(strings)\<close> on a list of strings.\<close>

fun join_strs :: "pystr \<Rightarrow> pystr list \<Rightarrow> pystr" where
  "join_strs sep [] = []"
| "join_strs sep [x] = x"
| "join_strs sep (x # y # ys) = x @ sep @ join_strs sep (y # ys)"

fun as_str :: "pyval \<Rightarrow> pystr option" where
  "as_str (PStr s) = Some s"
| "as_str v = None"

text \<open>
  \<^verbatim>\<open>sep.join(v)\<close> on any value: a list is joined when all its items are strings, a
  string is iterated by character, a dictionary by key; anything else, and a list with
  an item that is not a string, raises TypeError.
\<close>

fun py_join :: "pystr \<Rightarrow> pyval \<Rightarrow> pyexc + pystr" where
  "py_join sep (PList xs) =
     (case those (map as_str xs) of None \<Rightarrow> Inl TypeError | Some ss \<Rightarrow> Inr (join_strs sep ss))"
| "py_join sep (PStr s) = Inr (join_strs sep (map (\<lambda>c. [c]) s))"
| "py_join sep (PDict d) = Inr (join_strs sep (map fst d))"
| "py_join sep v = Inl TypeError"

text \<open>Truth value of an object, as \<^verbatim>\<open>not v\<close> tests it.\<close>

fun truthy :: "pyval \<Rightarrow> bool" where
  "truthy PNone = False"
| "truthy (PBool t) = t"
| "truthy (PInt i) = (i \<noteq> 0)"
| "truthy (PStr s) = (s \<noteq> [])"
| "truthy (PList xs) = (xs \<noteq> [])"
| "truthy (PDict d) = (d \<noteq> [])"

text \<open>
  \<^verbatim>\<open>str.strip()\<close>: the characters Python counts as whitespace are removed from both
  ends.
\<close>

definition py_isspace :: "nat \<Rightarrow> bool" where
  "py_isspace c \<longleftrightarrow>
     (9 \<le> c \<and> c \<le> 13) \<or> (28 \<le> c \<and> c \<le> 32) \<or> c = 133 \<or> c = 160 \<or> c = 5760
     \<or> (8192 \<le> c \<and> c \<le> 8202) \<or> c = 8232 \<or> c = 8233 \<or> c = 8239 \<or> c = 8287 \<or> c = 12288"

definition strip :: "pystr \<Rightarrow> pystr" where
  "strip s = rev (dropWhile py_isspace (rev (dropWhile py_isspace s)))"

text \<open>\<^verbatim>\<open>os.path.basename\<close> (POSIX): what follows the last slash.\<close>

definition basename :: "pystr \<Rightarrow> pystr" where
  "basename p = rev (takeWhile (\<lambda>c. c \<noteq> 47) (rev p))"

text \<open>A list comprehension whose body may raise: the first exception ends it.\<close>

fun map_result :: "('a \<Rightarrow> pyexc + 'b) \<Rightarrow> 'a list \<Rightarrow> pyexc + 'b list" where
  "map_result f [] = Inr []"
| "map_result f (x # xs) =
     (case f x of
        Inl e \<Rightarrow> Inl e
      | Inr y \<Rightarrow> (case map_result f xs of Inl e \<Rightarrow> Inl e | Inr ys \<Rightarrow> Inr (y # ys)))"

section \<open>Collaborators and the calls made to them\<close>

text \<open>
  The parser, the embedding client, the vector store and the generation client are
  outside the program. Their behaviour is a parameter of the model; an exception they
  raise is the \<open>Inl\<close> of their result. \<open>'e\<close> is whatever the embedding client returns
  under the key \<^verbatim>\<open>'embedding'\<close>, \<open>'s\<close> is the content of the collection, \<open>'x\<close> stands
  for the fields of a query result other than \<^verbatim>\<open>'metadatas'\<close> (ids, documents,
  distances).
\<close>

text \<open>
  The result of \<^verbatim>\<open>collection.query\<close>. For \<open>metadatas\<close>, \<open>None\<close> is a result without
  the key, \<open>Some None\<close> is the key bound to Python's \<^verbatim>\<open>None\<close>, and otherwise there is
  one list of metadata dictionaries per query embedding.
\<close>

record 'x query_result =
  metadatas :: "pydict list list option option"
  other_fields :: 'x

text \<open>A generation response; reading its \<^verbatim>\<open>text\<close> property may raise.\<close>

record gen_response =
  resp_text :: "pyexc + pystr"

record ('e, 's, 'x) env =
  parse_document_to_sections :: "pystr \<Rightarrow> pystr \<Rightarrow> pystr \<Rightarrow> pyexc + pydict list option"
  embed_content :: "pystr \<Rightarrow> pyval \<Rightarrow> pystr \<Rightarrow> pyexc + 'e"
  collection_add :: "'s \<Rightarrow> 'e \<Rightarrow> pystr list \<Rightarrow> pydict list \<Rightarrow> pystr list \<Rightarrow> pyexc + 's"
  collection_query :: "'s \<Rightarrow> 'e list \<Rightarrow> int \<Rightarrow> pyexc + 'x query_result"
  generate_content :: "pystr \<Rightarrow> pyexc + gen_response"
  py :: builtins

text \<open>
  Every call to a collaborator is recorded with its arguments: \<open>AddCall\<close> carries
  embeddings, documents, metadatas and ids; \<open>EmbedCall\<close> carries model, content and
  task type; \<open>QueryCall\<close> carries the query embeddings and \<^verbatim>\<open>n_results\<close>.
\<close>

datatype 'e call =
    ParseCall pystr pystr pystr
  | EmbedCall pystr pyval pystr
  | AddCall 'e "pystr list" "pydict list" "pystr list"
  | QueryCall "'e list" int
  | GenerateCall pystr

record ('e, 's) world =
  store :: 's
  calls :: "'e call list"

definition log_call :: "'e call \<Rightarrow> ('e, 's) world \<Rightarrow> ('e, 's) world" where
  "log_call c w = w\<lparr>calls := calls w @ [c]\<rparr>"

section \<open>The indexing pipeline\<close>

definition EMBEDDING_MODEL :: pystr where
  "EMBEDDING_MODEL = ascii ''models/text-embedding-004''"

definition prepare_chunk_for_embedding :: "builtins \<Rightarrow> pydict \<Rightarrow> pyexc + pystr" where
  "prepare_chunk_for_embedding b chunk =
     (case py_join (ascii '' > '') (dict_get chunk (ascii ''full_path'') (PList [])) of
        Inl e \<Rightarrow> Inl e
      | Inr full_path_str \<Rightarrow>
          Inr (ascii ''Section Path: '' @ full_path_str @ [10] @ ascii ''Content: ''
               @ py_str b (dict_get chunk (ascii ''content'') (PStr []))))"

text \<open>The dictionary built in the body of the loop, its items in the order written.\<close>

definition metadata_of_chunk :: "builtins \<Rightarrow> pydict \<Rightarrow> pyexc + pydict" where
  "metadata_of_chunk b chunk =
     (case py_int b (dict_get chunk (ascii ''page_number'') (PInt 0)) of
        Inl e \<Rightarrow> Inl e
      | Inr page_number \<Rightarrow>
          (case py_join (ascii '' > '') (dict_get chunk (ascii ''full_path'') (PList [])) of
             Inl e \<Rightarrow> Inl e
           | Inr full_path \<Rightarrow>
               Inr [(ascii ''document_name'', dict_get chunk (ascii ''document_name'') (PStr [])),
                    (ascii ''page_number'', PInt page_number),
                    (ascii ''section_title'', dict_get chunk (ascii ''section_title'') (PStr [])),
                    (ascii ''full_path'', PStr full_path),
                    (ascii ''original_content'', dict_get chunk (ascii ''content'') (PStr []))]))"

text \<open>
  \<^verbatim>\<open>for i, chunk in enumerate(parsed_data)\<close>: one metadata dictionary and one
  identifier are appended per chunk; an exception leaves the loop.
\<close>

fun upsert_loop ::
  "builtins \<Rightarrow> pystr \<Rightarrow> nat \<Rightarrow> pydict list \<Rightarrow> pydict list \<Rightarrow> pystr list
     \<Rightarrow> pyexc + (pydict list \<times> pystr list)" where
  "upsert_loop b base i [] metadatas_to_upsert ids_to_upsert =
     Inr (metadatas_to_upsert, ids_to_upsert)"
| "upsert_loop b base i (chunk # rest) metadatas_to_upsert ids_to_upsert =
     (case metadata_of_chunk b chunk of
        Inl e \<Rightarrow> Inl e
      | Inr m \<Rightarrow>
          upsert_loop b base (Suc i) rest (metadatas_to_upsert @ [m])
            (ids_to_upsert @ [base @ ascii ''_'' @ str_nat i]))"

definition process_and_index_pdf_async ::
  "('e, 's, 'x) env \<Rightarrow> pystr \<Rightarrow> pystr \<Rightarrow> pystr \<Rightarrow> ('e, 's) world
     \<Rightarrow> (pyexc + unit) \<times> ('e, 's) world" where
  "process_and_index_pdf_async env pdf_path model_path encoder_path w =
     (let w1 = log_call (ParseCall pdf_path model_path encoder_path) w in
      case parse_document_to_sections env pdf_path model_path encoder_path of
        Inl e \<Rightarrow> (Inl e, w1)
      | Inr None \<Rightarrow> (Inr (), w1)
      | Inr (Some parsed_data) \<Rightarrow>
          if parsed_data = [] then (Inr (), w1)
          else
            (case map_result (prepare_chunk_for_embedding (py env)) parsed_data of
               Inl e \<Rightarrow> (Inl e, w1)
             | Inr texts_to_embed \<Rightarrow>
                 (let content = PList (map PStr texts_to_embed);
                      task_type = ascii ''RETRIEVAL_DOCUMENT'';
                      w2 = log_call (EmbedCall EMBEDDING_MODEL content task_type) w1 in
                  case embed_content env EMBEDDING_MODEL content task_type of
                    Inl e \<Rightarrow> (Inl e, w2)
                  | Inr embeddings \<Rightarrow>
                      (case upsert_loop (py env) (basename pdf_path) 0 parsed_data [] [] of
                         Inl e \<Rightarrow> (Inl e, w2)
                       | Inr (metadatas_to_upsert, ids_to_upsert) \<Rightarrow>
                           (let w3 = log_call (AddCall embeddings texts_to_embed
                                                 metadatas_to_upsert ids_to_upsert) w2 in
                            case collection_add env (store w3) embeddings texts_to_embed
                                   metadatas_to_upsert ids_to_upsert of
                              Inl e \<Rightarrow> (Inl e, w3)
                            | Inr s \<Rightarrow> (Inr (), w3\<lparr>store := s\<rparr>))))))"

section \<open>The retrieval handler\<close>

text \<open>
  The prompt template, read as \<^verbatim>\<open>str.format\<close> reads it: literal text and
  replacement fields.
\<close>

datatype fmt_piece = Lit pystr | Field pystr

definition PROMPT_BEFORE_CONTEXT :: pystr where
  "PROMPT_BEFORE_CONTEXT =
     [10]
     @ ascii ''You are an expert AI assistant for a document analysis tool.''
     @ [10]
     @ ascii ''Your task is to analyze a user''
     @ [39]
     @ ascii ''s selected text and, based ONLY on the provided context from their document library, generate three types of insights.''
     @ [10]
     @ ascii ''The context below consists of sections from documents the user has previously read.''
     @ [10, 10]
     @ ascii ''Analyze the user''
     @ [39]
     @ ascii ''s selection in light of the context and provide the following:''
     @ [10]
     @ ascii ''1.  **Contradictions (''
     @ [9876, 65039]
     @ ascii ''):** Identify any statements in the context that directly contradict or challenge the user''
     @ [39]
     @ ascii ''s selected text. If none, state that.''
     @ [10]
     @ ascii ''2.  **Enhancements (''
     @ [128161]
     @ ascii ''):** Find any information in the context that builds upon, refines, or provides a more detailed example of the concept in the user''
     @ [39]
     @ ascii ''s selection. If none, state that.''
     @ [10]
     @ ascii ''3.  **Connections (''
     @ [128279]
     @ ascii ''):** Point out any related concepts or similar ideas from the context that are not direct enhancements but are relevant to the user''
     @ [39]
     @ ascii ''s selection. If none, state that.''
     @ [10, 10]
     @ ascii ''Your response must be concise, grounded in the provided context, and structured clearly under these three headings.''
     @ [10, 10]
     @ ascii ''---''
     @ [10]
     @ ascii ''CONTEXT:''
     @ [10]"

definition PROMPT_BEFORE_SELECTION :: pystr where
  "PROMPT_BEFORE_SELECTION =
     [10]
     @ ascii ''---''
     @ [10, 10]
     @ ascii ''USER''
     @ [39]
     @ ascii ''S SELECTED TEXT:''
     @ [10, 34]"

definition PROMPT_AFTER_SELECTION :: pystr where
  "PROMPT_AFTER_SELECTION =
     [34, 10, 10]
     @ ascii ''---''
     @ [10]
     @ ascii ''INSIGHTS:''
     @ [10]"

definition INSIGHTS_PROMPT_TEMPLATE :: "fmt_piece list" where
  "INSIGHTS_PROMPT_TEMPLATE =
     [Lit PROMPT_BEFORE_CONTEXT, Field (ascii ''context''),
      Lit PROMPT_BEFORE_SELECTION, Field (ascii ''user_selection''),
      Lit PROMPT_AFTER_SELECTION]"

text \<open>\<^verbatim>\<open>template.format(**kwargs)\<close>; a field without an argument raises KeyError.\<close>

fun py_format :: "builtins \<Rightarrow> fmt_piece list \<Rightarrow> (pystr \<times> pyval) list \<Rightarrow> pyexc + pystr" where
  "py_format b [] kwargs = Inr []"
| "py_format b (Lit s # ps) kwargs =
     (case py_format b ps kwargs of Inl e \<Rightarrow> Inl e | Inr r \<Rightarrow> Inr (s @ r))"
| "py_format b (Field f # ps) kwargs =
     (case map_of kwargs f of
        None \<Rightarrow> Inl KeyError
      | Some v \<Rightarrow> (case py_format b ps kwargs of Inl e \<Rightarrow> Inl e | Inr r \<Rightarrow> Inr (py_str b v @ r)))"

definition NO_CONTEXT_MESSAGE :: pystr where
  "NO_CONTEXT_MESSAGE =
     ascii ''No relevant context was found in your library to generate insights.''"

definition API_ERROR_MESSAGE :: pystr where
  "API_ERROR_MESSAGE = ascii ''Error: Could not generate insights due to an API issue.''"

text \<open>\<^verbatim>\<open>query_results.get('metadatas', [[]])[0]\<close>\<close>

definition first_metadatas :: "'x query_result \<Rightarrow> pyexc + pydict list" where
  "first_metadatas query_results =
     (case metadatas query_results of
        None \<Rightarrow> Inr []
      | Some None \<Rightarrow> Inl TypeError
      | Some (Some []) \<Rightarrow> Inl IndexError
      | Some (Some (m # ms)) \<Rightarrow> Inr m)"

definition retrieve_relevant_sections ::
  "('e, 's, 'x) env \<Rightarrow> pyval \<Rightarrow> int \<Rightarrow> ('e, 's) world
     \<Rightarrow> (pyexc + pydict list) \<times> ('e, 's) world" where
  "retrieve_relevant_sections env user_selection top_k w =
     (let task_type = ascii ''RETRIEVAL_QUERY'';
          w1 = log_call (EmbedCall EMBEDDING_MODEL user_selection task_type) w in
      case embed_content env EMBEDDING_MODEL user_selection task_type of
        Inl e \<Rightarrow> (Inl e, w1)
      | Inr query_embedding \<Rightarrow>
          (let w2 = log_call (QueryCall [query_embedding] top_k) w1 in
           case collection_query env (store w2) [query_embedding] top_k of
             Inl e \<Rightarrow> (Inl e, w2)
           | Inr query_results \<Rightarrow> (first_metadatas query_results, w2)))"

text \<open>One item of the context: document name, page and content of a retrieved section.\<close>

definition format_context_item :: "builtins \<Rightarrow> pydict \<Rightarrow> pystr" where
  "format_context_item b item =
     ascii ''From '' @ [39]
     @ py_str b (dict_get item (ascii ''document_name'') (PStr (ascii ''N/A'')))
     @ [39] @ ascii '' (Page ''
     @ py_str b (dict_get item (ascii ''page_number'') (PStr (ascii ''N/A'')))
     @ ascii ''):'' @ [10]
     @ py_str b (dict_get item (ascii ''original_content'') (PStr []))"

definition generate_insights ::
  "('e, 's, 'x) env \<Rightarrow> pyval \<Rightarrow> pydict list \<Rightarrow> ('e, 's) world
     \<Rightarrow> (pyexc + pystr) \<times> ('e, 's) world" where
  "generate_insights env user_selection context_sections w =
     (if context_sections = [] then (Inr NO_CONTEXT_MESSAGE, w)
      else
        (let context_str =
               join_strs ([10, 10] @ ascii ''---'' @ [10, 10])
                 (map (format_context_item (py env)) context_sections) in
         case py_format (py env) INSIGHTS_PROMPT_TEMPLATE
                [(ascii ''context'', PStr context_str),
                 (ascii ''user_selection'', user_selection)] of
           Inl e \<Rightarrow> (Inl e, w)
         | Inr prompt \<Rightarrow>
             (let w1 = log_call (GenerateCall prompt) w in
              case generate_content env prompt of
                Inl e \<Rightarrow> (Inr API_ERROR_MESSAGE, w1)
              | Inr response \<Rightarrow>
                  (case resp_text response of
                     Inl e \<Rightarrow> (Inr API_ERROR_MESSAGE, w1)
                   | Inr t \<Rightarrow> (Inr (strip t), w1)))))"

definition get_insights_for_selection ::
  "('e, 's, 'x) env \<Rightarrow> pyval \<Rightarrow> ('e, 's) world \<Rightarrow> (pyexc + pydict) \<times> ('e, 's) world" where
  "get_insights_for_selection env user_selection w =
     (case retrieve_relevant_sections env user_selection 5 w of
        (Inl e, w1) \<Rightarrow> (Inl e, w1)
      | (Inr retrieved_sections, w1) \<Rightarrow>
          (case generate_insights env user_selection retrieved_sections w1 of
             (Inl e, w2) \<Rightarrow> (Inl e, w2)
           | (Inr generated_insights, w2) \<Rightarrow>
               (Inr [(ascii ''retrieved_sections'', PList (map PDict retrieved_sections)),
                     (ascii ''generated_insights'', PStr generated_insights)], w2)))"

text \<open>
  The constructor: without an API key it raises ValueError; otherwise it connects to
  the services, which may raise as well. \<open>connect\<close> stands for that external part
  and yields the collaborators of the handler.
\<close>

definition RetrievalHandler_init ::
  "(pystr \<Rightarrow> pyexc + ('e, 's, 'x) env) \<Rightarrow> pystr option \<Rightarrow> pyexc + ('e, 's, 'x) env" where
  "RetrievalHandler_init connect google_api_key =
     (case google_api_key of
        None \<Rightarrow> Inl ValueError
      | Some k \<Rightarrow> if k = [] then Inl ValueError else connect k)"

section \<open>The HTTP endpoint\<close>

text \<open>The module-level handler: \<open>None\<close> when the constructor raised.\<close>

definition retrieval_handler ::
  "(pystr \<Rightarrow> pyexc + ('e, 's, 'x) env) \<Rightarrow> pystr option \<Rightarrow> ('e, 's, 'x) env option" where
  "retrieval_handler connect google_api_key =
     (case RetrievalHandler_init connect google_api_key of
        Inl e \<Rightarrow> None
      | Inr h \<Rightarrow> Some h)"

text \<open>\<^verbatim>\<open>key in v\<close> for a string key.\<close>

fun contains_str :: "pystr \<Rightarrow> pystr \<Rightarrow> bool" where
  "contains_str k [] = (k = [])"
| "contains_str k (c # cs) = (take (length k) (c # cs) = k \<or> contains_str k cs)"

fun py_contains :: "pystr \<Rightarrow> pyval \<Rightarrow> pyexc + bool" where
  "py_contains k (PDict d) = Inr (k \<in> set (map fst d))"
| "py_contains k (PList xs) = Inr (PStr k \<in> set xs)"
| "py_contains k (PStr s) = Inr (contains_str k s)"
| "py_contains k v = Inl TypeError"

text \<open>\<^verbatim>\<open>v[key]\<close> for a string key.\<close>

fun py_getitem :: "pyval \<Rightarrow> pystr \<Rightarrow> pyexc + pyval" where
  "py_getitem (PDict d) k = (case map_of d k of None \<Rightarrow> Inl KeyError | Some v \<Rightarrow> Inr v)"
| "py_getitem v k = Inl TypeError"

text \<open>
  \<^verbatim>\<open>v[:n]\<close>; only strings and lists can be sliced. Every other value raises
  (TypeError; a dictionary raises KeyError instead from Python 3.12 on).
\<close>

fun py_slice_to :: "nat \<Rightarrow> pyval \<Rightarrow> pyexc + pyval" where
  "py_slice_to n (PStr s) = Inr (PStr (take n s))"
| "py_slice_to n (PList xs) = Inr (PList (take n xs))"
| "py_slice_to n v = Inl TypeError"

definition MISSING_SELECTION_MESSAGE :: pystr where
  "MISSING_SELECTION_MESSAGE =
     ascii ''Missing '' @ [39] @ ascii ''selection'' @ [39] @ ascii '' key in request body.''"

definition error_body :: "pystr \<Rightarrow> pyval" where
  "error_body msg = PDict [(ascii ''error'', PStr msg)]"

text \<open>
  The line the view prints for a request: the first 50 items of the selection between
  quotes, after a newline and a fixed label.
\<close>

definition request_log_line :: "builtins \<Rightarrow> pyval \<Rightarrow> pystr" where
  "request_log_line b shown =
     [10] @ ascii ''Received request for selection: '' @ [39] @ py_str b shown
     @ ascii ''...'' @ [39]"

text \<open>
  The view function. \<open>body\<close> is the outcome of \<^verbatim>\<open>request.get_json()\<close>; the result is
  the JSON document and the HTTP status, or the exception that leaves the view. The
  slice of the selection and the print of the log line stand before the
  \<^verbatim>\<open>try\<close>, so what they raise leaves the view.
\<close>

definition get_insights ::
  "('e, 's, 'x) env option \<Rightarrow> pyexc + pyval \<Rightarrow> ('e, 's) world
     \<Rightarrow> (pyexc + pyval \<times> nat) \<times> ('e, 's) world" where
  "get_insights handler body w =
     (case handler of
        None \<Rightarrow> (Inr (error_body (ascii ''Backend handler is not initialized.''), 500), w)
      | Some h \<Rightarrow>
          (case body of
             Inl e \<Rightarrow> (Inl e, w)
           | Inr data \<Rightarrow>
               (let missing = Inr (error_body MISSING_SELECTION_MESSAGE, 400) in
                if \<not> truthy data then (missing, w)
                else
                  (case py_contains (ascii ''selection'') data of
                     Inl e \<Rightarrow> (Inl e, w)
                   | Inr False \<Rightarrow> (missing, w)
                   | Inr True \<Rightarrow>
                       (case py_getitem data (ascii ''selection'') of
                          Inl e \<Rightarrow> (Inl e, w)
                        | Inr user_selection \<Rightarrow>
                            (case py_slice_to 50 user_selection of
                               Inl e \<Rightarrow> (Inl e, w)
                             | Inr shown \<Rightarrow>
                                 (case py_print (py h) (request_log_line (py h) shown) of
                                    Inl e \<Rightarrow> (Inl e, w)
                                  | Inr u \<Rightarrow>
                                      (case get_insights_for_selection h user_selection w of
                                         (Inl e, w1) \<Rightarrow>
                                           (Inr (error_body
                                                   (ascii ''An internal error occurred.''),
                                                 500), w1)
                                       | (Inr results, w1) \<Rightarrow>
                                           (Inr (PDict results, 200), w1)))))))))"

section \<open>A test double for the collaborators\<close>

text \<open>
  A concrete parser, embedding client, store and generation client, on which the
  theorems below are exercised. The store is the list of its entries (identifier,
  document text, metadata); a query answers with the metadata of the first
  \<^verbatim>\<open>n_results\<close> entries. Standard output is UTF-8: it encodes every code point
  up to U+10FFFF that is not a surrogate.
\<close>

definition demo_builtins :: builtins where
  "demo_builtins =
     \<lparr>int_of_str = (\<lambda>s. if s = ascii ''7'' then Some 7 else None),
      repr_container = (\<lambda>v. ascii ''[...]''),
      stdout_encodes =
        (\<lambda>s. list_all (\<lambda>c. c < 55296 \<or> (57343 < c \<and> c \<le> 1114111)) s)\<rparr>"

definition demo_chunks :: "pydict list" where
  "demo_chunks =
     [[(ascii ''document_name'', PStr (ascii ''a.pdf'')),
       (ascii ''page_number'', PInt 1),
       (ascii ''section_title'', PStr (ascii ''Intro'')),
       (ascii ''full_path'', PList [PStr (ascii ''Intro'')]),
       (ascii ''content'', PStr (ascii ''Hello''))],
      [(ascii ''page_number'', PStr (ascii ''7'')),
       (ascii ''full_path'', PList [PStr (ascii ''Intro''), PStr (ascii ''Scope'')]),
       (ascii ''content'', PStr (ascii ''World''))]]"

type_synonym demo_store = "(pystr \<times> pystr \<times> pydict) list"

definition demo_env :: "(nat list, demo_store, unit) env" where
  "demo_env =
     \<lparr>parse_document_to_sections =
        (\<lambda>pdf_path model_path encoder_path.
           if pdf_path = ascii ''pdfs/empty.pdf'' then Inr (Some [])
           else if pdf_path = ascii ''pdfs/none.pdf'' then Inr None
           else Inr (Some demo_chunks)),
      embed_content = (\<lambda>model content task_type. Inr [1, 2, 3]),
      collection_add =
        (\<lambda>s embeddings documents metadatas ids. Inr (s @ zip ids (zip documents metadatas))),
      collection_query =
        (\<lambda>s query_embeddings n_results.
           Inr \<lparr>metadatas = Some (Some [take (nat n_results) (map (\<lambda>entry. snd (snd entry)) s)]),
                other_fields = ()\<rparr>),
      generate_content = (\<lambda>prompt. Inr \<lparr>resp_text = Inr (ascii ''  Insight.  '')\<rparr>),
      py = demo_builtins\<rparr>"

definition demo_world :: "(nat list, demo_store) world" where
  "demo_world = \<lparr>store = [], calls = []\<rparr>"

definition demo_section :: pydict where
  "demo_section =
     [(ascii ''document_name'', PStr (ascii ''a.pdf'')),
      (ascii ''page_number'', PInt 1),
      (ascii ''section_title'', PStr (ascii ''Intro'')),
      (ascii ''full_path'', PStr (ascii ''Intro'')),
      (ascii ''original_content'', PStr (ascii ''Hello''))]"

definition demo_indexed_world :: "(nat list, demo_store) world" where
  "demo_indexed_world =
     \<lparr>store = [(ascii ''a.pdf_0'', ascii ''Hello'', demo_section)], calls = []\<rparr>"

definition spec_descriptive_text :: "pystr list \<Rightarrow> pystr \<Rightarrow> pystr" where
  "spec_descriptive_text path content =
     ascii ''Section Path: '' @ join_strs (ascii '' > '') path
     @ ([10] @ ascii ''Content: '') @ content"

text \<open>
  The prompt that \<open>generate_insights\<close> renders for a selection and a list of sections,
  written out: the template with the joined context and the selection in place of
  its two fields.
\<close>

definition insights_prompt :: "builtins \<Rightarrow> pyval \<Rightarrow> pydict list \<Rightarrow> pystr" where
  "insights_prompt b user_selection context_sections =
     PROMPT_BEFORE_CONTEXT
     @ join_strs ([10, 10] @ ascii ''---'' @ [10, 10])
         (map (format_context_item b) context_sections)
     @ PROMPT_BEFORE_SELECTION @ py_str b user_selection @ PROMPT_AFTER_SELECTION"

section \<open>Strings, decimal numerals and the loops\<close>

lemma ascii_append: "ascii (s @ t) = ascii s @ ascii t"
  by (simp add: ascii_def)

lemma ascii_eq_iff [simp]: "ascii s = ascii t \<longleftrightarrow> s = t"
  unfolding ascii_def by (simp add: inj_map_eq_map inj_on_def)

lemma str_nat_nonempty: "str_nat n \<noteq> []"
  by (subst str_nat.simps) simp

lemma str_nat_last: "last (str_nat n) = 48 + n mod 10"
  by (subst str_nat.simps) simp

lemma str_nat_butlast: "butlast (str_nat n) = (if n < 10 then [] else str_nat (n div 10))"
  by (subst str_nat.simps) (simp add: butlast_append)

lemma str_nat_inj: "str_nat n = str_nat m \<Longrightarrow> n = m"
proof (induction n arbitrary: m rule: str_nat.induct)
  case (1 n)
  from "1.prems" have l: "n mod 10 = m mod 10"
    using str_nat_last [of n] str_nat_last [of m] by simp
  from "1.prems" have b: "butlast (str_nat n) = butlast (str_nat m)" by simp
  show ?case
  proof (cases "n < 10")
    case True
    with b have "m < 10"
      using str_nat_nonempty [of "m div 10"] by (auto simp: str_nat_butlast split: if_splits)
    with True l show ?thesis by simp
  next
    case False
    with b have m: "\<not> m < 10"
      using str_nat_nonempty [of "n div 10"] by (auto simp: str_nat_butlast split: if_splits)
    with False b have "str_nat (n div 10) = str_nat (m div 10)"
      by (simp add: str_nat_butlast)
    with False "1.IH" have "n div 10 = m div 10" by simp
    with l show ?thesis
      by (metis div_mult_mod_eq)
  qed
qed

lemma map_result_Inr:
  "map_result f xs = Inr ys \<Longrightarrow>
     length ys = length xs \<and> (\<forall>i<length xs. f (xs ! i) = Inr (ys ! i))"
proof (induction xs arbitrary: ys)
  case Nil
  then show ?case by simp
next
  case (Cons x xs)
  then show ?case
    by (auto split: sum.splits simp: nth_Cons split: nat.splits)
qed

lemma upsert_loop_eq:
  "upsert_loop b base i chunks metas ids =
     (case map_result (metadata_of_chunk b) chunks of
        Inl e \<Rightarrow> Inl e
      | Inr ms \<Rightarrow> Inr (metas @ ms,
                     ids @ map (\<lambda>j. base @ ascii ''_'' @ str_nat j) [i..<i + length chunks]))"
proof (induction chunks arbitrary: i metas ids)
  case Nil
  then show ?case by simp
next
  case (Cons c cs)
  have u: "[i..<i + length (c # cs)] = i # [Suc i..<Suc i + length cs]"
    by (subst upt_rec) simp
  show ?case
    unfolding u by (simp add: Cons.IH split: sum.splits)
qed

lemmas demo_simps =
  demo_env_def demo_world_def demo_chunks_def demo_builtins_def demo_section_def
  demo_indexed_world_def

lemmas py_simps =
  dict_get_def basename_def log_call_def EMBEDDING_MODEL_def
  prepare_chunk_for_embedding_def metadata_of_chunk_def


lemma prepare_if_metadata:
  "metadata_of_chunk b c = Inr m \<Longrightarrow> \<exists>t. prepare_chunk_for_embedding b c = Inr t"
  by (auto simp: metadata_of_chunk_def prepare_chunk_for_embedding_def split: sum.splits)

lemma map_result_total:
  "(\<forall>x\<in>set xs. \<exists>y. f x = Inr y) \<Longrightarrow> \<exists>ys. map_result f xs = Inr ys"
  by (induction xs) auto

lemma map_result_set:
  "map_result f xs = Inr ys \<Longrightarrow> x \<in> set xs \<Longrightarrow> \<exists>y. f x = Inr y"
  by (induction xs arbitrary: ys) (auto split: sum.splits)

lemma texts_if_metadatas:
  assumes "map_result (metadata_of_chunk b) chunks = Inr metas"
  shows "\<exists>texts. map_result (prepare_chunk_for_embedding b) chunks = Inr texts"
proof (rule map_result_total, rule ballI)
  fix c assume "c \<in> set chunks"
  then obtain m where "metadata_of_chunk b c = Inr m"
    using map_result_set [OF assms] by blast
  then show "\<exists>t. prepare_chunk_for_embedding b c = Inr t"
    by (rule prepare_if_metadata)
qed

lemma ids_distinct: "distinct (map (\<lambda>j. base @ sep @ str_nat j) [i..<i + n])"
  by (auto simp: distinct_map inj_on_def dest: str_nat_inj)

text \<open>What a run does after a parse that produced chunks.\<close>

lemma process_nonempty:
  assumes "parse_document_to_sections env pdf_path model_path encoder_path = Inr (Some chunks)"
    and "chunks \<noteq> []"
  shows "process_and_index_pdf_async env pdf_path model_path encoder_path w =
     (let w1 = log_call (ParseCall pdf_path model_path encoder_path) w in
      case map_result (prepare_chunk_for_embedding (py env)) chunks of
        Inl e \<Rightarrow> (Inl e, w1)
      | Inr texts \<Rightarrow>
          (let w2 = log_call (EmbedCall EMBEDDING_MODEL (PList (map PStr texts))
                                (ascii ''RETRIEVAL_DOCUMENT'')) w1 in
           case embed_content env EMBEDDING_MODEL (PList (map PStr texts))
                  (ascii ''RETRIEVAL_DOCUMENT'') of
             Inl e \<Rightarrow> (Inl e, w2)
           | Inr es \<Rightarrow>
               (case map_result (metadata_of_chunk (py env)) chunks of
                  Inl e \<Rightarrow> (Inl e, w2)
                | Inr metas \<Rightarrow>
                    (let ids = map (\<lambda>j. basename pdf_path @ ascii ''_'' @ str_nat j)
                                 [0..<length chunks];
                         w3 = log_call (AddCall es texts metas ids) w2 in
                     case collection_add env (store w) es texts metas ids of
                       Inl e \<Rightarrow> (Inl e, w3)
                     | Inr s \<Rightarrow> (Inr (), w3\<lparr>store := s\<rparr>)))))"
  using assms
  by (simp add: process_and_index_pdf_async_def upsert_loop_eq log_call_def Let_def
           split: sum.splits)

section \<open>Indexing one document\<close>

text \<open>
  Claim C5. When the parser returns an empty list, or \<^verbatim>\<open>None\<close>, the pipeline returns
  normally; the only call it has made is the call to the parser, so no embedding is
  requested and nothing is added to the store, whose content stays as it was.
\<close>

theorem empty_parse_writes_nothing:
  assumes "parse_document_to_sections env pdf_path model_path encoder_path = Inr parsed_data"
    and "parsed_data = None \<or> parsed_data = Some []"
  shows "fst (process_and_index_pdf_async env pdf_path model_path encoder_path w) = Inr ()
    \<and> store (snd (process_and_index_pdf_async env pdf_path model_path encoder_path w)) = store w
    \<and> calls (snd (process_and_index_pdf_async env pdf_path model_path encoder_path w))
        = calls w @ [ParseCall pdf_path model_path encoder_path]"
  using assms
  by (auto simp: process_and_index_pdf_async_def log_call_def)

text \<open>
  Claim C1. Let the parser return a non-empty list of \<open>n\<close> chunks. The pipeline
  completes when the metadata of every chunk can be built and the embedding client and
  the store answer. Whenever it completes it has made exactly three calls: the parse,
  one embedding request and one \<^verbatim>\<open>add\<close>. That \<^verbatim>\<open>add\<close> carries \<open>n\<close> documents,
  \<open>n\<close> metadata dictionaries and \<open>n\<close> identifiers, the identifier at position \<open>i\<close> is
  the base name of the file followed by an underscore and the decimal numeral of \<open>i\<close>,
  and the identifiers are pairwise distinct. The store afterwards is what the store
  answered to that call.
\<close>

theorem one_add_call_per_document:
  assumes "parse_document_to_sections env pdf_path model_path encoder_path = Inr (Some chunks)"
    and "chunks \<noteq> []"
  shows "((\<exists>metas. map_result (metadata_of_chunk (py env)) chunks = Inr metas)
          \<and> (\<forall>content. \<exists>es. embed_content env EMBEDDING_MODEL content
                                (ascii ''RETRIEVAL_DOCUMENT'') = Inr es)
          \<and> (\<forall>es docs metas ids. \<exists>s. collection_add env (store w) es docs metas ids = Inr s)
          \<longrightarrow> fst (process_and_index_pdf_async env pdf_path model_path encoder_path w) = Inr ())
    \<and> (fst (process_and_index_pdf_async env pdf_path model_path encoder_path w) = Inr ()
          \<longrightarrow> (\<exists>content es docs metas ids.
                calls (snd (process_and_index_pdf_async env pdf_path model_path encoder_path w))
                  = calls w @ [ParseCall pdf_path model_path encoder_path,
                               EmbedCall EMBEDDING_MODEL content (ascii ''RETRIEVAL_DOCUMENT''),
                               AddCall es docs metas ids]
                \<and> collection_add env (store w) es docs metas ids
                    = Inr (store (snd (process_and_index_pdf_async env pdf_path model_path
                                         encoder_path w)))
                \<and> length docs = length chunks
                \<and> length metas = length chunks
                \<and> length ids = length chunks
                \<and> (\<forall>i<length chunks. ids ! i = basename pdf_path @ ascii ''_'' @ str_nat i)
                \<and> distinct ids))"
proof (intro conjI impI)
  assume a: "(\<exists>metas. map_result (metadata_of_chunk (py env)) chunks = Inr metas)
          \<and> (\<forall>content. \<exists>es. embed_content env EMBEDDING_MODEL content
                                (ascii ''RETRIEVAL_DOCUMENT'') = Inr es)
          \<and> (\<forall>es docs metas ids. \<exists>s. collection_add env (store w) es docs metas ids = Inr s)"
  then obtain metas where m: "map_result (metadata_of_chunk (py env)) chunks = Inr metas"
    by blast
  then obtain texts where t: "map_result (prepare_chunk_for_embedding (py env)) chunks = Inr texts"
    using texts_if_metadatas by blast
  from a obtain es where e: "embed_content env EMBEDDING_MODEL (PList (map PStr texts))
                                (ascii ''RETRIEVAL_DOCUMENT'') = Inr es"
    by blast
  from a obtain s where "collection_add env (store w) es texts metas
       (map (\<lambda>j. basename pdf_path @ ascii ''_'' @ str_nat j) [0..<length chunks]) = Inr s"
    by blast
  with m t e show "fst (process_and_index_pdf_async env pdf_path model_path encoder_path w) = Inr ()"
    by (simp add: process_nonempty [OF assms] Let_def)
next
  assume ok: "fst (process_and_index_pdf_async env pdf_path model_path encoder_path w) = Inr ()"
  let ?ids = "map (\<lambda>j. basename pdf_path @ ascii ''_'' @ str_nat j) [0..<length chunks]"
  from ok obtain texts es metas s where
    t: "map_result (prepare_chunk_for_embedding (py env)) chunks = Inr texts"
    and e: "embed_content env EMBEDDING_MODEL (PList (map PStr texts))
              (ascii ''RETRIEVAL_DOCUMENT'') = Inr es"
    and m: "map_result (metadata_of_chunk (py env)) chunks = Inr metas"
    and a: "collection_add env (store w) es texts metas ?ids = Inr s"
    by (auto simp: process_nonempty [OF assms] Let_def split: sum.splits)
  have run: "process_and_index_pdf_async env pdf_path model_path encoder_path w =
      (Inr (), \<lparr>store = s, calls = calls w @ [ParseCall pdf_path model_path encoder_path,
                   EmbedCall EMBEDDING_MODEL (PList (map PStr texts)) (ascii ''RETRIEVAL_DOCUMENT''),
                   AddCall es texts metas ?ids]\<rparr>)"
    using t e m a by (simp add: process_nonempty [OF assms] Let_def log_call_def)
  have lt: "length texts = length chunks" using map_result_Inr [OF t] by simp
  have lm: "length metas = length chunks" using map_result_Inr [OF m] by simp
  have d: "distinct ?ids" using ids_distinct [of "basename pdf_path" "ascii ''_''" 0 "length chunks"] by simp
  show "\<exists>content es docs metas ids.
                calls (snd (process_and_index_pdf_async env pdf_path model_path encoder_path w))
                  = calls w @ [ParseCall pdf_path model_path encoder_path,
                               EmbedCall EMBEDDING_MODEL content (ascii ''RETRIEVAL_DOCUMENT''),
                               AddCall es docs metas ids]
                \<and> collection_add env (store w) es docs metas ids
                    = Inr (store (snd (process_and_index_pdf_async env pdf_path model_path
                                         encoder_path w)))
                \<and> length docs = length chunks
                \<and> length metas = length chunks
                \<and> length ids = length chunks
                \<and> (\<forall>i<length chunks. ids ! i = basename pdf_path @ ascii ''_'' @ str_nat i)
                \<and> distinct ids"
    apply (rule exI [of _ "PList (map PStr texts)"], rule exI [of _ es], rule exI [of _ texts],
           rule exI [of _ metas], rule exI [of _ ?ids])
    using lt lm d a by (simp add: run)
qed


theorem empty_parse_writes_nothing_witness:
  "parse_document_to_sections demo_env (ascii ''pdfs/empty.pdf'') (ascii ''model'')
      (ascii ''encoder'') = Inr (Some [])
   \<and> fst (process_and_index_pdf_async demo_env (ascii ''pdfs/empty.pdf'') (ascii ''model'')
             (ascii ''encoder'') demo_indexed_world) = Inr ()
   \<and> store (snd (process_and_index_pdf_async demo_env (ascii ''pdfs/empty.pdf'')
                    (ascii ''model'') (ascii ''encoder'') demo_indexed_world))
       = store demo_indexed_world
   \<and> calls (snd (process_and_index_pdf_async demo_env (ascii ''pdfs/empty.pdf'')
                    (ascii ''model'') (ascii ''encoder'') demo_indexed_world))
       = [ParseCall (ascii ''pdfs/empty.pdf'') (ascii ''model'') (ascii ''encoder'')]
   \<and> parse_document_to_sections demo_env (ascii ''pdfs/none.pdf'') (ascii ''model'')
      (ascii ''encoder'') = Inr None
   \<and> fst (process_and_index_pdf_async demo_env (ascii ''pdfs/none.pdf'') (ascii ''model'')
             (ascii ''encoder'') demo_indexed_world) = Inr ()
   \<and> store (snd (process_and_index_pdf_async demo_env (ascii ''pdfs/none.pdf'')
                    (ascii ''model'') (ascii ''encoder'') demo_indexed_world))
       = store demo_indexed_world
   \<and> calls (snd (process_and_index_pdf_async demo_env (ascii ''pdfs/none.pdf'')
                    (ascii ''model'') (ascii ''encoder'') demo_indexed_world))
       = [ParseCall (ascii ''pdfs/none.pdf'') (ascii ''model'') (ascii ''encoder'')]"
proof -
  have p: "parse_document_to_sections demo_env (ascii ''pdfs/empty.pdf'') (ascii ''model'')
      (ascii ''encoder'') = Inr (Some [])"
    by (simp add: demo_env_def)
  have q: "parse_document_to_sections demo_env (ascii ''pdfs/none.pdf'') (ascii ''model'')
      (ascii ''encoder'') = Inr None"
    by (simp add: demo_env_def)
  show ?thesis
    using p q empty_parse_writes_nothing [OF p, of demo_indexed_world]
      empty_parse_writes_nothing [OF q, of demo_indexed_world]
    by (simp add: demo_indexed_world_def)
qed

theorem one_add_call_per_document_witness:
  "parse_document_to_sections demo_env (ascii ''pdfs/a.pdf'') (ascii ''model'')
      (ascii ''encoder'') = Inr (Some demo_chunks)
   \<and> demo_chunks \<noteq> []
   \<and> fst (process_and_index_pdf_async demo_env (ascii ''pdfs/a.pdf'') (ascii ''model'')
             (ascii ''encoder'') demo_world) = Inr ()
   \<and> (\<exists>content es docs metas.
         calls (snd (process_and_index_pdf_async demo_env (ascii ''pdfs/a.pdf'')
                       (ascii ''model'') (ascii ''encoder'') demo_world))
           = [ParseCall (ascii ''pdfs/a.pdf'') (ascii ''model'') (ascii ''encoder''),
              EmbedCall EMBEDDING_MODEL content (ascii ''RETRIEVAL_DOCUMENT''),
              AddCall es docs metas [ascii ''a.pdf_0'', ascii ''a.pdf_1'']])"
proof -
  have p: "parse_document_to_sections demo_env (ascii ''pdfs/a.pdf'') (ascii ''model'')
      (ascii ''encoder'') = Inr (Some demo_chunks)"
    by (simp add: demo_env_def)
  have n: "demo_chunks \<noteq> []"
    by (simp add: demo_chunks_def)
  have m: "\<exists>metas. map_result (metadata_of_chunk (py demo_env)) demo_chunks = Inr metas"
    by (simp add: demo_simps py_simps)
  have e: "\<forall>content. \<exists>es. embed_content demo_env EMBEDDING_MODEL content
              (ascii ''RETRIEVAL_DOCUMENT'') = Inr es"
    by (simp add: demo_env_def)
  have a: "\<forall>es docs metas ids. \<exists>s. collection_add demo_env (store demo_world) es docs metas ids
              = Inr s"
    by (simp add: demo_env_def)
  have b: "basename (ascii ''pdfs/a.pdf'') = ascii ''a.pdf''"
    by (simp add: basename_def ascii_def)
  have i0: "ascii ''a.pdf'' @ ascii ''_'' @ str_nat 0 = ascii ''a.pdf_0''"
    by (simp add: str_nat.simps ascii_def)
  have i1: "ascii ''a.pdf'' @ ascii ''_'' @ str_nat (Suc 0) = ascii ''a.pdf_1''"
    by (simp add: str_nat.simps ascii_def)
  have l: "length demo_chunks = 2"
    by (simp add: demo_chunks_def)
  from one_add_call_per_document [OF p n, of demo_world] m e a
  have ok: "fst (process_and_index_pdf_async demo_env (ascii ''pdfs/a.pdf'') (ascii ''model'')
             (ascii ''encoder'') demo_world) = Inr ()"
    and "\<exists>content es docs metas ids.
         calls (snd (process_and_index_pdf_async demo_env (ascii ''pdfs/a.pdf'')
                       (ascii ''model'') (ascii ''encoder'') demo_world))
           = calls demo_world @
             [ParseCall (ascii ''pdfs/a.pdf'') (ascii ''model'') (ascii ''encoder''),
              EmbedCall EMBEDDING_MODEL content (ascii ''RETRIEVAL_DOCUMENT''),
              AddCall es docs metas ids]
         \<and> length ids = 2
         \<and> (\<forall>i<2. ids ! i = ascii ''a.pdf'' @ ascii ''_'' @ str_nat i)"
    unfolding b l by blast+
  then obtain content es docs metas ids where
    c: "calls (snd (process_and_index_pdf_async demo_env (ascii ''pdfs/a.pdf'')
                       (ascii ''model'') (ascii ''encoder'') demo_world))
           = calls demo_world @
             [ParseCall (ascii ''pdfs/a.pdf'') (ascii ''model'') (ascii ''encoder''),
              EmbedCall EMBEDDING_MODEL content (ascii ''RETRIEVAL_DOCUMENT''),
              AddCall es docs metas ids]"
    and len: "length ids = 2"
    and nth: "\<forall>i<2. ids ! i = ascii ''a.pdf'' @ ascii ''_'' @ str_nat i"
    by blast
  from nth have "ids ! 0 = ascii ''a.pdf_0''" "ids ! 1 = ascii ''a.pdf_1''"
    using i0 i1 by auto
  with len have "ids = [ascii ''a.pdf_0'', ascii ''a.pdf_1'']"
    by (cases ids; cases "tl ids") auto
  with c p n ok show ?thesis
    by (simp add: demo_world_def)
qed

lemma those_as_str_comp: "those (map (as_str \<circ> PStr) ss) = Some ss"
  by (induction ss) auto

lemma those_as_str_PStr: "those (map as_str (map PStr ss)) = Some ss"
  by (simp add: those_as_str_comp)

lemma py_join_strings: "py_join sep (PList (map PStr ss)) = Inr (join_strs sep ss)"
  by (simp add: those_as_str_comp)

text \<open>
  Claim C7. For a chunk whose path is a list of strings and whose content is a
  string, the text built is the prefix, the path joined by \<open>'' > ''\<close>, a newline with
  the label, and the content. In a completed run the list of these texts is the
  content of the embedding request and, unchanged, the documents of the \<^verbatim>\<open>add\<close>
  call, one per chunk and in the order of the chunks.
\<close>

theorem descriptive_text_embedded_and_stored:
  "(\<forall>chunk path content.
       dict_get chunk (ascii ''full_path'') (PList []) = PList (map PStr path)
       \<longrightarrow> dict_get chunk (ascii ''content'') (PStr []) = PStr content
       \<longrightarrow> prepare_chunk_for_embedding b chunk = Inr (spec_descriptive_text path content))
   \<and> (parse_document_to_sections env pdf_path model_path encoder_path = Inr (Some chunks)
       \<longrightarrow> chunks \<noteq> []
       \<longrightarrow> fst (process_and_index_pdf_async env pdf_path model_path encoder_path w) = Inr ()
       \<longrightarrow> (\<exists>texts es metas ids.
              calls (snd (process_and_index_pdf_async env pdf_path model_path encoder_path w))
                = calls w @ [ParseCall pdf_path model_path encoder_path,
                             EmbedCall EMBEDDING_MODEL (PList (map PStr texts))
                               (ascii ''RETRIEVAL_DOCUMENT''),
                             AddCall es texts metas ids]
              \<and> length texts = length chunks
              \<and> (\<forall>i<length chunks.
                    prepare_chunk_for_embedding (py env) (chunks ! i) = Inr (texts ! i))
              \<and> (\<forall>i<length chunks. \<forall>path content.
                    dict_get (chunks ! i) (ascii ''full_path'') (PList []) = PList (map PStr path)
                    \<longrightarrow> dict_get (chunks ! i) (ascii ''content'') (PStr []) = PStr content
                    \<longrightarrow> texts ! i = spec_descriptive_text path content)))"
proof (intro conjI allI impI)
  fix chunk path content
  assume "dict_get chunk (ascii ''full_path'') (PList []) = PList (map PStr path)"
    and "dict_get chunk (ascii ''content'') (PStr []) = PStr content"
  then show "prepare_chunk_for_embedding b chunk = Inr (spec_descriptive_text path content)"
    by (simp add: prepare_chunk_for_embedding_def spec_descriptive_text_def those_as_str_comp)
next
  assume p: "parse_document_to_sections env pdf_path model_path encoder_path = Inr (Some chunks)"
    and n: "chunks \<noteq> []"
    and ok: "fst (process_and_index_pdf_async env pdf_path model_path encoder_path w) = Inr ()"
  let ?ids = "map (\<lambda>j. basename pdf_path @ ascii ''_'' @ str_nat j) [0..<length chunks]"
  from ok obtain texts es metas s where
    t: "map_result (prepare_chunk_for_embedding (py env)) chunks = Inr texts"
    and e: "embed_content env EMBEDDING_MODEL (PList (map PStr texts))
              (ascii ''RETRIEVAL_DOCUMENT'') = Inr es"
    and m: "map_result (metadata_of_chunk (py env)) chunks = Inr metas"
    and a: "collection_add env (store w) es texts metas ?ids = Inr s"
    by (auto simp: process_nonempty [OF p n] Let_def split: sum.splits)
  have run: "calls (snd (process_and_index_pdf_async env pdf_path model_path encoder_path w)) =
      calls w @ [ParseCall pdf_path model_path encoder_path,
                   EmbedCall EMBEDDING_MODEL (PList (map PStr texts)) (ascii ''RETRIEVAL_DOCUMENT''),
                   AddCall es texts metas ?ids]"
    using t e m a by (simp add: process_nonempty [OF p n] Let_def log_call_def)
  note tl = map_result_Inr [OF t]
  have typed: "\<forall>i<length chunks. \<forall>path content.
                    dict_get (chunks ! i) (ascii ''full_path'') (PList []) = PList (map PStr path)
                    \<longrightarrow> dict_get (chunks ! i) (ascii ''content'') (PStr []) = PStr content
                    \<longrightarrow> texts ! i = spec_descriptive_text path content"
  proof (intro allI impI)
    fix i path content
    assume i: "i < length chunks"
      and "dict_get (chunks ! i) (ascii ''full_path'') (PList []) = PList (map PStr path)"
      and "dict_get (chunks ! i) (ascii ''content'') (PStr []) = PStr content"
    then have "prepare_chunk_for_embedding (py env) (chunks ! i)
                 = Inr (spec_descriptive_text path content)"
      by (simp add: prepare_chunk_for_embedding_def spec_descriptive_text_def those_as_str_comp)
    with tl i show "texts ! i = spec_descriptive_text path content" by simp
  qed
  show "\<exists>texts es metas ids.
              calls (snd (process_and_index_pdf_async env pdf_path model_path encoder_path w))
                = calls w @ [ParseCall pdf_path model_path encoder_path,
                             EmbedCall EMBEDDING_MODEL (PList (map PStr texts))
                               (ascii ''RETRIEVAL_DOCUMENT''),
                             AddCall es texts metas ids]
              \<and> length texts = length chunks
              \<and> (\<forall>i<length chunks.
                    prepare_chunk_for_embedding (py env) (chunks ! i) = Inr (texts ! i))
              \<and> (\<forall>i<length chunks. \<forall>path content.
                    dict_get (chunks ! i) (ascii ''full_path'') (PList []) = PList (map PStr path)
                    \<longrightarrow> dict_get (chunks ! i) (ascii ''content'') (PStr []) = PStr content
                    \<longrightarrow> texts ! i = spec_descriptive_text path content)"
    apply (rule exI [of _ texts], rule exI [of _ es], rule exI [of _ metas], rule exI [of _ ?ids])
    using run tl typed by simp
qed

text \<open>The test double's two chunks, and the run on them.\<close>

theorem descriptive_text_embedded_and_stored_witness:
  "dict_get (demo_chunks ! 0) (ascii ''full_path'') (PList [])
      = PList (map PStr [ascii ''Intro''])
   \<and> dict_get (demo_chunks ! 0) (ascii ''content'') (PStr []) = PStr (ascii ''Hello'')
   \<and> prepare_chunk_for_embedding demo_builtins (demo_chunks ! 0)
      = Inr (ascii ''Section Path: Intro'' @ [10] @ ascii ''Content: Hello'')
   \<and> parse_document_to_sections demo_env (ascii ''pdfs/a.pdf'') (ascii ''model'')
        (ascii ''encoder'') = Inr (Some demo_chunks)
   \<and> demo_chunks \<noteq> []
   \<and> fst (process_and_index_pdf_async demo_env (ascii ''pdfs/a.pdf'') (ascii ''model'')
             (ascii ''encoder'') demo_world) = Inr ()
   \<and> (\<exists>texts es metas ids.
         calls (snd (process_and_index_pdf_async demo_env (ascii ''pdfs/a.pdf'')
                       (ascii ''model'') (ascii ''encoder'') demo_world))
           = [ParseCall (ascii ''pdfs/a.pdf'') (ascii ''model'') (ascii ''encoder''),
              EmbedCall EMBEDDING_MODEL (PList (map PStr texts)) (ascii ''RETRIEVAL_DOCUMENT''),
              AddCall es texts metas ids]
         \<and> texts ! 0 = ascii ''Section Path: Intro'' @ [10] @ ascii ''Content: Hello''
         \<and> texts ! 1 = ascii ''Section Path: Intro > Scope'' @ [10] @ ascii ''Content: World'')"
proof -
  have f1: "dict_get (demo_chunks ! 1) (ascii ''full_path'') (PList [])
      = PList (map PStr [ascii ''Intro'', ascii ''Scope''])"
    by (simp add: demo_chunks_def dict_get_def)
  have c1: "dict_get (demo_chunks ! 1) (ascii ''content'') (PStr []) = PStr (ascii ''World'')"
    by (simp add: demo_chunks_def dict_get_def)
  have l1: "1 < length demo_chunks"
    by (simp add: demo_chunks_def)
  have d1: "spec_descriptive_text [ascii ''Intro'', ascii ''Scope''] (ascii ''World'')
             = ascii ''Section Path: Intro > Scope'' @ [10] @ ascii ''Content: World''"
    by (simp add: spec_descriptive_text_def ascii_def)
  have f: "dict_get (demo_chunks ! 0) (ascii ''full_path'') (PList [])
      = PList (map PStr [ascii ''Intro''])"
    by (simp add: demo_chunks_def dict_get_def)
  have c: "dict_get (demo_chunks ! 0) (ascii ''content'') (PStr []) = PStr (ascii ''Hello'')"
    by (simp add: demo_chunks_def dict_get_def)
  have p: "parse_document_to_sections demo_env (ascii ''pdfs/a.pdf'') (ascii ''model'')
      (ascii ''encoder'') = Inr (Some demo_chunks)"
    by (simp add: demo_env_def)
  have n: "demo_chunks \<noteq> []"
    by (simp add: demo_chunks_def)
  have l: "0 < length demo_chunks"
    by (simp add: demo_chunks_def)
  have ok: "fst (process_and_index_pdf_async demo_env (ascii ''pdfs/a.pdf'') (ascii ''model'')
             (ascii ''encoder'') demo_world) = Inr ()"
    by (simp add: process_and_index_pdf_async_def upsert_loop_eq Let_def demo_simps py_simps)
  have d: "spec_descriptive_text [ascii ''Intro''] (ascii ''Hello'')
             = ascii ''Section Path: Intro'' @ [10] @ ascii ''Content: Hello''"
    by (simp add: spec_descriptive_text_def ascii_def)
  note inst = descriptive_text_embedded_and_stored
               [of demo_builtins demo_env "ascii ''pdfs/a.pdf''" "ascii ''model''"
                   "ascii ''encoder''" demo_chunks demo_world]
  from inst f c d have t0: "prepare_chunk_for_embedding demo_builtins (demo_chunks ! 0)
      = Inr (ascii ''Section Path: Intro'' @ [10] @ ascii ''Content: Hello'')"
    by metis
  from inst p n ok obtain texts es metas ids where
    r: "calls (snd (process_and_index_pdf_async demo_env (ascii ''pdfs/a.pdf'')
                       (ascii ''model'') (ascii ''encoder'') demo_world))
           = calls demo_world @
             [ParseCall (ascii ''pdfs/a.pdf'') (ascii ''model'') (ascii ''encoder''),
              EmbedCall EMBEDDING_MODEL (PList (map PStr texts)) (ascii ''RETRIEVAL_DOCUMENT''),
              AddCall es texts metas ids]"
    and ty: "\<forall>i<length demo_chunks. \<forall>path content.
                    dict_get (demo_chunks ! i) (ascii ''full_path'') (PList []) = PList (map PStr path)
                    \<longrightarrow> dict_get (demo_chunks ! i) (ascii ''content'') (PStr []) = PStr content
                    \<longrightarrow> texts ! i = spec_descriptive_text path content"
    by blast
  from ty l f c d have "texts ! 0 = ascii ''Section Path: Intro'' @ [10] @ ascii ''Content: Hello''"
    by metis
  moreover from ty l1 f1 c1 d1
  have "texts ! 1 = ascii ''Section Path: Intro > Scope'' @ [10] @ ascii ''Content: World''"
    by metis
  ultimately show ?thesis using r f c t0 p n ok
    by (auto simp: demo_world_def)
qed



section \<open>Answering a selection\<close>

lemma format_insights_prompt:
  "py_format b INSIGHTS_PROMPT_TEMPLATE
     [(ascii ''context'', PStr c), (ascii ''user_selection'', u)]
   = Inr (PROMPT_BEFORE_CONTEXT @ c @ PROMPT_BEFORE_SELECTION @ py_str b u
          @ PROMPT_AFTER_SELECTION)"
  by (simp add: INSIGHTS_PROMPT_TEMPLATE_def)

lemma generate_insights_nonempty:
  assumes "context_sections \<noteq> []"
  shows "generate_insights env user_selection context_sections w =
     ((case generate_content env (insights_prompt (py env) user_selection context_sections) of
         Inl e \<Rightarrow> Inr API_ERROR_MESSAGE
       | Inr response \<Rightarrow>
           (case resp_text response of
              Inl e \<Rightarrow> Inr API_ERROR_MESSAGE
            | Inr t \<Rightarrow> Inr (strip t))),
      log_call (GenerateCall (insights_prompt (py env) user_selection context_sections)) w)"
  using assms
  by (simp add: generate_insights_def format_insights_prompt insights_prompt_def Let_def
           split: sum.splits)

lemma generate_insights_returns:
  "\<exists>g. fst (generate_insights env user_selection context_sections w) = Inr g"
proof (cases "context_sections = []")
  case True
  then show ?thesis by (simp add: generate_insights_def)
next
  case False
  then show ?thesis
    by (simp add: generate_insights_nonempty split: sum.splits)
qed

lemma retrieve_calls:
  assumes "retrieve_relevant_sections env user_selection top_k w = (Inr secs, w1)"
  shows "\<exists>qe. calls w1 = calls w @ [EmbedCall EMBEDDING_MODEL user_selection
                                     (ascii ''RETRIEVAL_QUERY''),
                                   QueryCall [qe] top_k]
              \<and> store w1 = store w"
  using assms
  by (auto simp: retrieve_relevant_sections_def log_call_def Let_def split: sum.splits)

lemma rev_dropWhile_split:
  "u = rev (dropWhile P (rev u)) @ rev (takeWhile P (rev u))"
  by (metis rev_append rev_rev_ident takeWhile_dropWhile_id)

lemma dropWhile_rev_nonempty: "dropWhile P (rev u) \<noteq> [] \<Longrightarrow> u \<noteq> []"
  by auto

lemma strip_split: "dropWhile py_isspace t = strip t @ rev (takeWhile py_isspace (rev (dropWhile py_isspace t)))"
  unfolding strip_def by (rule rev_dropWhile_split)

lemma strip_decomposition:
  "\<exists>l r. t = l @ strip t @ r \<and> (\<forall>c\<in>set l. py_isspace c) \<and> (\<forall>c\<in>set r. py_isspace c)"
proof -
  let ?l = "takeWhile py_isspace t"
  let ?r = "rev (takeWhile py_isspace (rev (dropWhile py_isspace t)))"
  have "t = ?l @ dropWhile py_isspace t" by simp
  then have 1: "t = ?l @ strip t @ ?r"
    using strip_split [of t] by simp
  have 3: "\<forall>c\<in>set ?l. py_isspace c"
    by (auto dest: set_takeWhileD)
  have 4: "\<forall>c\<in>set ?r. py_isspace c"
    by (auto dest: set_takeWhileD)
  from 1 3 4 show ?thesis by blast
qed

lemma strip_ends:
  assumes "strip t \<noteq> []"
  shows "\<not> py_isspace (hd (strip t)) \<and> \<not> py_isspace (last (strip t))"
proof -
  let ?u = "dropWhile py_isspace t"
  let ?v = "dropWhile py_isspace (rev ?u)"
  from assms have v: "?v \<noteq> []" by (simp add: strip_def)
  then have "\<not> py_isspace (hd ?v)" by (rule hd_dropWhile)
  moreover have "last (strip t) = hd ?v" using v by (simp add: strip_def last_rev)
  ultimately have l: "\<not> py_isspace (last (strip t))" by simp
  from v have u: "?u \<noteq> []" by (rule dropWhile_rev_nonempty)
  then have hu: "\<not> py_isspace (hd ?u)" by (rule hd_dropWhile)
  have "hd ?u = hd (strip t @ rev (takeWhile py_isspace (rev ?u)))"
    using strip_split [of t] by simp
  with assms have "hd ?u = hd (strip t)" by simp
  with hu l show ?thesis by simp
qed

text \<open>
  Claim C6. When the embedding client and the store answer, and the answer holds a
  list of metadata lists, \<open>retrieve_relevant_sections\<close> has made two calls: an embedding
  request for the selection with task type \<^verbatim>\<open>RETRIEVAL_QUERY\<close>, and one query with
  that embedding and \<^verbatim>\<open>n_results = top_k\<close>. It returns the first metadata list as
  the store gave it, so in the store's order and with at most \<open>top_k\<close> items when
  the store returns that many; the other fields of the answer have no influence.
  \<open>get_insights_for_selection\<close> asks for 5.
\<close>

theorem retrieve_returns_first_metadata_list:
  assumes "embed_content env EMBEDDING_MODEL user_selection (ascii ''RETRIEVAL_QUERY'') = Inr qe"
    and "collection_query env (store w) [qe] top_k = Inr query_results"
    and "metadatas query_results = Some (Some (ms # rest))"
  shows "retrieve_relevant_sections env user_selection top_k w =
           (Inr ms, w\<lparr>calls := calls w @ [EmbedCall EMBEDDING_MODEL user_selection
                                             (ascii ''RETRIEVAL_QUERY''),
                                           QueryCall [qe] top_k]\<rparr>)
    \<and> (\<forall>x. first_metadatas (query_results\<lparr>other_fields := x\<rparr>) = Inr ms)
    \<and> (length ms \<le> nat top_k
         \<longrightarrow> (\<exists>r. fst (retrieve_relevant_sections env user_selection top_k w) = Inr r
                  \<and> length r \<le> nat top_k))
    \<and> (top_k = 5
         \<longrightarrow> (\<exists>g w2. get_insights_for_selection env user_selection w =
                  (Inr [(ascii ''retrieved_sections'', PList (map PDict ms)),
                        (ascii ''generated_insights'', PStr g)], w2)
                \<and> take 2 (drop (length (calls w)) (calls w2)) =
                    [EmbedCall EMBEDDING_MODEL user_selection (ascii ''RETRIEVAL_QUERY''),
                     QueryCall [qe] 5]))"
proof -
  have r: "retrieve_relevant_sections env user_selection top_k w =
           (Inr ms, w\<lparr>calls := calls w @ [EmbedCall EMBEDDING_MODEL user_selection
                                             (ascii ''RETRIEVAL_QUERY''),
                                           QueryCall [qe] top_k]\<rparr>)"
    using assms
    by (simp add: retrieve_relevant_sections_def log_call_def Let_def first_metadatas_def)
  have f: "\<forall>x. first_metadatas (query_results\<lparr>other_fields := x\<rparr>) = Inr ms"
    using assms(3) by (simp add: first_metadatas_def)
  have d: "top_k = 5
         \<longrightarrow> (\<exists>g w2. get_insights_for_selection env user_selection w =
                  (Inr [(ascii ''retrieved_sections'', PList (map PDict ms)),
                        (ascii ''generated_insights'', PStr g)], w2)
                \<and> take 2 (drop (length (calls w)) (calls w2)) =
                    [EmbedCall EMBEDDING_MODEL user_selection (ascii ''RETRIEVAL_QUERY''),
                     QueryCall [qe] 5])"
  proof
    assume k: "top_k = 5"
    let ?w1 = "w\<lparr>calls := calls w @ [EmbedCall EMBEDDING_MODEL user_selection
                                             (ascii ''RETRIEVAL_QUERY''),
                                           QueryCall [qe] 5]\<rparr>"
    show "\<exists>g w2. get_insights_for_selection env user_selection w =
                  (Inr [(ascii ''retrieved_sections'', PList (map PDict ms)),
                        (ascii ''generated_insights'', PStr g)], w2)
                \<and> take 2 (drop (length (calls w)) (calls w2)) =
                    [EmbedCall EMBEDDING_MODEL user_selection (ascii ''RETRIEVAL_QUERY''),
                     QueryCall [qe] 5]"
    proof (cases "ms = []")
      case True
      with r k show ?thesis
        by (simp add: get_insights_for_selection_def generate_insights_def)
    next
      case False
      obtain g where g: "fst (generate_insights env user_selection ms ?w1) = Inr g"
        using generate_insights_returns by blast
      have s: "snd (generate_insights env user_selection ms ?w1) =
                 log_call (GenerateCall (insights_prompt (py env) user_selection ms)) ?w1"
        using False by (simp add: generate_insights_nonempty)
      from g s have "generate_insights env user_selection ms ?w1 =
                 (Inr g, log_call (GenerateCall (insights_prompt (py env) user_selection ms)) ?w1)"
        by (metis prod.collapse)
      with r k show ?thesis
        by (simp add: get_insights_for_selection_def log_call_def)
    qed
  qed
  from r f d show ?thesis by simp
qed

theorem retrieve_returns_first_metadata_list_witness:
  "embed_content demo_env EMBEDDING_MODEL (PStr (ascii ''light'')) (ascii ''RETRIEVAL_QUERY'')
     = Inr [1, 2, 3]
   \<and> collection_query demo_env (store demo_indexed_world) [[1, 2, 3]] 5
     = Inr \<lparr>metadatas = Some (Some [[demo_section]]), other_fields = ()\<rparr>
   \<and> retrieve_relevant_sections demo_env (PStr (ascii ''light'')) 5 demo_indexed_world
     = (Inr [demo_section],
        demo_indexed_world\<lparr>calls := [EmbedCall EMBEDDING_MODEL (PStr (ascii ''light''))
                                        (ascii ''RETRIEVAL_QUERY''),
                                      QueryCall [[1, 2, 3]] 5]\<rparr>)
   \<and> length [demo_section] \<le> nat 5"
proof -
  have e: "embed_content demo_env EMBEDDING_MODEL (PStr (ascii ''light''))
             (ascii ''RETRIEVAL_QUERY'') = Inr [1, 2, 3]"
    by (simp add: demo_env_def)
  have q: "collection_query demo_env (store demo_indexed_world) [[1, 2, 3]] 5
     = Inr \<lparr>metadatas = Some (Some [[demo_section]]), other_fields = ()\<rparr>"
    by (simp add: demo_env_def demo_indexed_world_def)
  have m: "metadatas \<lparr>metadatas = Some (Some [[demo_section]]), other_fields = ()\<rparr>
             = Some (Some ([demo_section] # []))"
    by simp
  show ?thesis
    using e q retrieve_returns_first_metadata_list [OF e q m]
    by (simp add: demo_indexed_world_def)
qed

text \<open>
  Claim C2. Whenever the retrieval step returns, \<open>get_insights_for_selection\<close> returns a
  dictionary with exactly the two keys \<^verbatim>\<open>retrieved_sections\<close> and
  \<^verbatim>\<open>generated_insights\<close>, whatever the generation client does. When the retrieval
  step returned no section, the second value is the fixed no-context message and no
  call is made after the retrieval, so the generation client is not invoked.
\<close>

theorem insight_response_has_both_keys:
  assumes "retrieve_relevant_sections env (PStr s) 5 w = (Inr secs, w1)"
  shows "\<exists>g w2. get_insights_for_selection env (PStr s) w =
            (Inr [(ascii ''retrieved_sections'', PList (map PDict secs)),
                  (ascii ''generated_insights'', PStr g)], w2)
          \<and> (secs = [] \<longrightarrow> g = NO_CONTEXT_MESSAGE \<and> w2 = w1
                \<and> (\<forall>prompt. GenerateCall prompt \<notin> set (drop (length (calls w)) (calls w2))))"
proof (cases "secs = []")
  case True
  from retrieve_calls [OF assms] obtain qe where
    c: "calls w1 = calls w @ [EmbedCall EMBEDDING_MODEL (PStr s) (ascii ''RETRIEVAL_QUERY''),
                              QueryCall [qe] 5]"
    by blast
  have "get_insights_for_selection env (PStr s) w =
            (Inr [(ascii ''retrieved_sections'', PList (map PDict secs)),
                  (ascii ''generated_insights'', PStr NO_CONTEXT_MESSAGE)], w1)"
    using assms True by (simp add: get_insights_for_selection_def generate_insights_def)
  moreover have "\<forall>prompt. GenerateCall prompt \<notin> set (drop (length (calls w)) (calls w1))"
    using c by simp
  ultimately show ?thesis by blast
next
  case False
  obtain g where g: "fst (generate_insights env (PStr s) secs w1) = Inr g"
    using generate_insights_returns by blast
  obtain r w2 where p: "generate_insights env (PStr s) secs w1 = (r, w2)"
    by (cases "generate_insights env (PStr s) secs w1")
  with g have "r = Inr g" by simp
  with p assms have "get_insights_for_selection env (PStr s) w =
            (Inr [(ascii ''retrieved_sections'', PList (map PDict secs)),
                  (ascii ''generated_insights'', PStr g)], w2)"
    by (simp add: get_insights_for_selection_def)
  with False show ?thesis by blast
qed

theorem insight_response_has_both_keys_witness:
  "retrieve_relevant_sections demo_env (PStr (ascii ''light'')) 5 demo_world
     = (Inr [], demo_world\<lparr>calls := [EmbedCall EMBEDDING_MODEL (PStr (ascii ''light''))
                                        (ascii ''RETRIEVAL_QUERY''),
                                      QueryCall [[1, 2, 3]] 5]\<rparr>)
   \<and> get_insights_for_selection demo_env (PStr (ascii ''light'')) demo_world
     = (Inr [(ascii ''retrieved_sections'', PList []),
             (ascii ''generated_insights'', PStr NO_CONTEXT_MESSAGE)],
        demo_world\<lparr>calls := [EmbedCall EMBEDDING_MODEL (PStr (ascii ''light''))
                                 (ascii ''RETRIEVAL_QUERY''),
                               QueryCall [[1, 2, 3]] 5]\<rparr>)"
proof -
  have r: "retrieve_relevant_sections demo_env (PStr (ascii ''light'')) 5 demo_world
     = (Inr [], demo_world\<lparr>calls := [EmbedCall EMBEDDING_MODEL (PStr (ascii ''light''))
                                        (ascii ''RETRIEVAL_QUERY''),
                                      QueryCall [[1, 2, 3]] 5]\<rparr>)"
    by (simp add: retrieve_relevant_sections_def first_metadatas_def log_call_def Let_def
          demo_env_def demo_world_def)
  from insight_response_has_both_keys [OF r] obtain g w2 where
    "get_insights_for_selection demo_env (PStr (ascii ''light'')) demo_world =
            (Inr [(ascii ''retrieved_sections'', PList (map PDict [])),
                  (ascii ''generated_insights'', PStr g)], w2)"
    and "g = NO_CONTEXT_MESSAGE"
    and "w2 = demo_world\<lparr>calls := [EmbedCall EMBEDDING_MODEL (PStr (ascii ''light''))
                                        (ascii ''RETRIEVAL_QUERY''),
                                      QueryCall [[1, 2, 3]] 5]\<rparr>"
    by blast
  with r show ?thesis by simp
qed

text \<open>
  Claim C3. For a non-empty list of context sections \<open>generate_insights\<close> calls the
  generation client once, with the rendered prompt, and always returns a string: the
  fixed error message when the client raises or when reading the text of its response
  raises, and otherwise the generated text stripped. The stripped text is the text
  without a leading and a trailing run of whitespace, and it neither starts nor ends
  with whitespace. Inside \<open>get_insights_for_selection\<close> the error message is the value of
  \<^verbatim>\<open>generated_insights\<close> in the usual two-key dictionary.
\<close>

theorem generation_failure_is_absorbed:
  assumes "context_sections \<noteq> []"
  shows "snd (generate_insights env user_selection context_sections w)
           = log_call (GenerateCall (insights_prompt (py env) user_selection context_sections)) w
    \<and> (\<exists>g. fst (generate_insights env user_selection context_sections w) = Inr g)
    \<and> (\<forall>e. generate_content env (insights_prompt (py env) user_selection context_sections)
               = Inl e
           \<longrightarrow> fst (generate_insights env user_selection context_sections w)
                 = Inr API_ERROR_MESSAGE)
    \<and> (\<forall>response e.
           generate_content env (insights_prompt (py env) user_selection context_sections)
               = Inr response
           \<longrightarrow> resp_text response = Inl e
           \<longrightarrow> fst (generate_insights env user_selection context_sections w)
                 = Inr API_ERROR_MESSAGE)
    \<and> (\<forall>response t.
           generate_content env (insights_prompt (py env) user_selection context_sections)
               = Inr response
           \<longrightarrow> resp_text response = Inr t
           \<longrightarrow> fst (generate_insights env user_selection context_sections w) = Inr (strip t)
               \<and> (\<exists>l r. t = l @ strip t @ r
                          \<and> (\<forall>c\<in>set l. py_isspace c) \<and> (\<forall>c\<in>set r. py_isspace c))
               \<and> (strip t \<noteq> []
                    \<longrightarrow> \<not> py_isspace (hd (strip t)) \<and> \<not> py_isspace (last (strip t))))
    \<and> (\<forall>w0 e.
           retrieve_relevant_sections env user_selection 5 w0 = (Inr context_sections, w)
           \<longrightarrow> generate_content env (insights_prompt (py env) user_selection context_sections)
                 = Inl e
           \<longrightarrow> fst (get_insights_for_selection env user_selection w0)
                 = Inr [(ascii ''retrieved_sections'', PList (map PDict context_sections)),
                        (ascii ''generated_insights'', PStr API_ERROR_MESSAGE)])"
proof (intro conjI allI impI)
  show "snd (generate_insights env user_selection context_sections w)
           = log_call (GenerateCall (insights_prompt (py env) user_selection context_sections)) w"
    using assms by (simp add: generate_insights_nonempty)
next
  show "\<exists>g. fst (generate_insights env user_selection context_sections w) = Inr g"
    by (rule generate_insights_returns)
next
  fix e
  assume "generate_content env (insights_prompt (py env) user_selection context_sections) = Inl e"
  then show "fst (generate_insights env user_selection context_sections w) = Inr API_ERROR_MESSAGE"
    using assms by (simp add: generate_insights_nonempty)
next
  fix response e
  assume "generate_content env (insights_prompt (py env) user_selection context_sections)
            = Inr response"
    and "resp_text response = Inl e"
  then show "fst (generate_insights env user_selection context_sections w) = Inr API_ERROR_MESSAGE"
    using assms by (simp add: generate_insights_nonempty)
next
  fix response t
  assume "generate_content env (insights_prompt (py env) user_selection context_sections)
            = Inr response"
    and "resp_text response = Inr t"
  then show "fst (generate_insights env user_selection context_sections w) = Inr (strip t)"
    using assms by (simp add: generate_insights_nonempty)
next
  fix response t
  show "\<exists>l r. t = l @ strip t @ r \<and> (\<forall>c\<in>set l. py_isspace c) \<and> (\<forall>c\<in>set r. py_isspace c)"
    by (rule strip_decomposition)
next
  fix response t
  assume "strip t \<noteq> []"
  then show "\<not> py_isspace (hd (strip t))" by (simp add: strip_ends)
next
  fix response t
  assume "strip t \<noteq> []"
  then show "\<not> py_isspace (last (strip t))" by (simp add: strip_ends)
next
  fix w0 e
  assume "retrieve_relevant_sections env user_selection 5 w0 = (Inr context_sections, w)"
    and "generate_content env (insights_prompt (py env) user_selection context_sections) = Inl e"
  then show "fst (get_insights_for_selection env user_selection w0)
                 = Inr [(ascii ''retrieved_sections'', PList (map PDict context_sections)),
                        (ascii ''generated_insights'', PStr API_ERROR_MESSAGE)]"
    using assms by (simp add: get_insights_for_selection_def generate_insights_nonempty)
qed

theorem generation_failure_is_absorbed_witness:
  "[demo_section] \<noteq> []
   \<and> generate_content (demo_env\<lparr>generate_content := (\<lambda>prompt. Inl (ClientError (ascii ''quota'')))\<rparr>)
        (insights_prompt demo_builtins (PStr (ascii ''light'')) [demo_section])
       = Inl (ClientError (ascii ''quota''))
   \<and> fst (generate_insights
             (demo_env\<lparr>generate_content := (\<lambda>prompt. Inl (ClientError (ascii ''quota'')))\<rparr>)
             (PStr (ascii ''light'')) [demo_section] demo_world)
       = Inr API_ERROR_MESSAGE
   \<and> generate_content demo_env (insights_prompt demo_builtins (PStr (ascii ''light'')) [demo_section])
       = Inr \<lparr>resp_text = Inr (ascii ''  Insight.  '')\<rparr>
   \<and> fst (generate_insights demo_env (PStr (ascii ''light'')) [demo_section] demo_world)
       = Inr (ascii ''Insight.'')"
proof -
  let ?bad = "demo_env\<lparr>generate_content := (\<lambda>prompt. Inl (ClientError (ascii ''quota'')))\<rparr>"
  let ?p = "insights_prompt demo_builtins (PStr (ascii ''light'')) [demo_section]"
  have n: "[demo_section] \<noteq> []" by simp
  have pb: "py ?bad = demo_builtins" and pd: "py demo_env = demo_builtins"
    by (simp_all add: demo_env_def)
  have b: "generate_content ?bad ?p = Inl (ClientError (ascii ''quota''))"
    by simp
  have g: "generate_content demo_env ?p = Inr \<lparr>resp_text = Inr (ascii ''  Insight.  '')\<rparr>"
    by (simp add: demo_env_def)
  have t: "resp_text \<lparr>resp_text = Inr (ascii ''  Insight.  '')\<rparr> = Inr (ascii ''  Insight.  '')"
    by simp
  have s: "strip (ascii ''  Insight.  '') = ascii ''Insight.''"
    by (simp add: strip_def py_isspace_def ascii_def)
  from generation_failure_is_absorbed [OF n, of ?bad "PStr (ascii ''light'')" demo_world] b
  have 1: "fst (generate_insights ?bad (PStr (ascii ''light'')) [demo_section] demo_world)
             = Inr API_ERROR_MESSAGE"
    unfolding pb by blast
  from generation_failure_is_absorbed [OF n, of demo_env "PStr (ascii ''light'')" demo_world] g t
  have 2: "fst (generate_insights demo_env (PStr (ascii ''light'')) [demo_section] demo_world)
             = Inr (strip (ascii ''  Insight.  ''))"
    unfolding pd by blast
  from n b g 1 2 s show ?thesis by simp
qed

section \<open>The endpoint\<close>

lemma map_of_Some_key: "map_of d k = Some v \<Longrightarrow> k \<in> fst ` set d"
  by (metis map_of_eq_None_iff option.distinct(1))

text \<open>
  A request whose body is an object with a selection that can be sliced, and whose log
  line standard output can encode: the view reaches the handler.
\<close>

lemma endpoint_reaches_handler:
  assumes "map_of d (ascii ''selection'') = Some v"
    and "py_slice_to 50 v = Inr shown"
    and "stdout_encodes (py h) (request_log_line (py h) shown)"
  shows "get_insights (Some h) (Inr (PDict d)) w =
     (case get_insights_for_selection h v w of
        (Inl e, w1) \<Rightarrow> (Inr (error_body (ascii ''An internal error occurred.''), 500), w1)
      | (Inr results, w1) \<Rightarrow> (Inr (PDict results, 200), w1))"
proof -
  from assms(1) have k: "ascii ''selection'' \<in> fst ` set d" by (rule map_of_Some_key)
  then have n: "d \<noteq> []" by auto
  from assms k n show ?thesis
    by (simp add: get_insights_def py_print_def Let_def)
qed

lemma endpoint_missing_selection:
  assumes "\<not> truthy data \<or> py_contains (ascii ''selection'') data = Inr False"
  shows "get_insights (Some h) (Inr data) w = (Inr (error_body MISSING_SELECTION_MESSAGE, 400), w)"
  using assms by (auto simp: get_insights_def Let_def)

text \<open>
  Claim C9. An exception of the query-embedding call or of the store's query leaves
  \<open>retrieve_relevant_sections\<close> and \<open>get_insights_for_selection\<close> as it is; the endpoint,
  for a request with a string selection that has reached the handler (its log line
  was printed), answers it with status 500 and the generic error document. A
  generation client that raises gives instead status 200 and the two-key dictionary
  whose \<^verbatim>\<open>generated_insights\<close> is the fixed error message.
\<close>

theorem retrieval_errors_become_http_500:
  "(embed_content h EMBEDDING_MODEL user_selection (ascii ''RETRIEVAL_QUERY'') = Inl e
      \<longrightarrow> fst (retrieve_relevant_sections h user_selection 5 w) = Inl e
          \<and> fst (get_insights_for_selection h user_selection w) = Inl e)
   \<and> (embed_content h EMBEDDING_MODEL user_selection (ascii ''RETRIEVAL_QUERY'') = Inr qe
      \<longrightarrow> collection_query h (store w) [qe] 5 = Inl e
      \<longrightarrow> fst (retrieve_relevant_sections h user_selection 5 w) = Inl e
          \<and> fst (get_insights_for_selection h user_selection w) = Inl e)
   \<and> (fst (retrieve_relevant_sections h (PStr s) 5 w) = Inl e
      \<longrightarrow> map_of d (ascii ''selection'') = Some (PStr s)
      \<longrightarrow> stdout_encodes (py h) (request_log_line (py h) (PStr (take 50 s)))
      \<longrightarrow> fst (get_insights (Some h) (Inr (PDict d)) w)
            = Inr (error_body (ascii ''An internal error occurred.''), 500))
   \<and> (retrieve_relevant_sections h (PStr s) 5 w = (Inr secs, w1)
      \<longrightarrow> secs \<noteq> []
      \<longrightarrow> generate_content h (insights_prompt (py h) (PStr s) secs) = Inl e
      \<longrightarrow> map_of d (ascii ''selection'') = Some (PStr s)
      \<longrightarrow> stdout_encodes (py h) (request_log_line (py h) (PStr (take 50 s)))
      \<longrightarrow> fst (get_insights (Some h) (Inr (PDict d)) w)
            = Inr (PDict [(ascii ''retrieved_sections'', PList (map PDict secs)),
                          (ascii ''generated_insights'', PStr API_ERROR_MESSAGE)], 200))"
proof (intro conjI impI)
  assume a: "embed_content h EMBEDDING_MODEL user_selection (ascii ''RETRIEVAL_QUERY'') = Inl e"
  then show r: "fst (retrieve_relevant_sections h user_selection 5 w) = Inl e"
    by (simp add: retrieve_relevant_sections_def Let_def)
  from a show "fst (get_insights_for_selection h user_selection w) = Inl e"
    by (simp add: get_insights_for_selection_def retrieve_relevant_sections_def Let_def)
next
  assume a: "embed_content h EMBEDDING_MODEL user_selection (ascii ''RETRIEVAL_QUERY'') = Inr qe"
    and q: "collection_query h (store w) [qe] 5 = Inl e"
  then show "fst (retrieve_relevant_sections h user_selection 5 w) = Inl e"
    by (simp add: retrieve_relevant_sections_def Let_def log_call_def)
  from a q show "fst (get_insights_for_selection h user_selection w) = Inl e"
    by (simp add: get_insights_for_selection_def retrieve_relevant_sections_def Let_def
          log_call_def)
next
  assume r: "fst (retrieve_relevant_sections h (PStr s) 5 w) = Inl e"
    and m: "map_of d (ascii ''selection'') = Some (PStr s)"
    and o: "stdout_encodes (py h) (request_log_line (py h) (PStr (take 50 s)))"
  have sl: "py_slice_to 50 (PStr s) = Inr (PStr (take 50 s))" by simp
  obtain x w1 where p: "retrieve_relevant_sections h (PStr s) 5 w = (x, w1)"
    by (cases "retrieve_relevant_sections h (PStr s) 5 w")
  with r have "x = Inl e" by simp
  with p show "fst (get_insights (Some h) (Inr (PDict d)) w)
            = Inr (error_body (ascii ''An internal error occurred.''), 500)"
    by (simp add: endpoint_reaches_handler [OF m sl o] get_insights_for_selection_def)
next
  assume r: "retrieve_relevant_sections h (PStr s) 5 w = (Inr secs, w1)"
    and n: "secs \<noteq> []"
    and g: "generate_content h (insights_prompt (py h) (PStr s) secs) = Inl e"
    and m: "map_of d (ascii ''selection'') = Some (PStr s)"
    and o: "stdout_encodes (py h) (request_log_line (py h) (PStr (take 50 s)))"
  have sl: "py_slice_to 50 (PStr s) = Inr (PStr (take 50 s))" by simp
  from r n g show "fst (get_insights (Some h) (Inr (PDict d)) w)
            = Inr (PDict [(ascii ''retrieved_sections'', PList (map PDict secs)),
                          (ascii ''generated_insights'', PStr API_ERROR_MESSAGE)], 200)"
    by (simp add: endpoint_reaches_handler [OF m sl o] get_insights_for_selection_def
          generate_insights_nonempty)
qed

theorem retrieval_errors_become_http_500_witness:
  "embed_content (demo_env\<lparr>embed_content :=
        (\<lambda>model content task_type. Inl (ClientError (ascii ''quota'')))\<rparr>)
      EMBEDDING_MODEL (PStr (ascii ''light'')) (ascii ''RETRIEVAL_QUERY'')
     = Inl (ClientError (ascii ''quota''))
   \<and> map_of [(ascii ''selection'', PStr (ascii ''light''))] (ascii ''selection'')
       = Some (PStr (ascii ''light''))
   \<and> stdout_encodes demo_builtins
        (request_log_line demo_builtins (PStr (take 50 (ascii ''light''))))
   \<and> fst (get_insights_for_selection
            (demo_env\<lparr>embed_content :=
               (\<lambda>model content task_type. Inl (ClientError (ascii ''quota'')))\<rparr>)
            (PStr (ascii ''light'')) demo_indexed_world)
       = Inl (ClientError (ascii ''quota''))
   \<and> fst (get_insights
            (Some (demo_env\<lparr>embed_content :=
               (\<lambda>model content task_type. Inl (ClientError (ascii ''quota'')))\<rparr>))
            (Inr (PDict [(ascii ''selection'', PStr (ascii ''light''))])) demo_indexed_world)
       = Inr (error_body (ascii ''An internal error occurred.''), 500)
   \<and> fst (get_insights
            (Some (demo_env\<lparr>generate_content :=
               (\<lambda>prompt. Inl (ClientError (ascii ''quota'')))\<rparr>))
            (Inr (PDict [(ascii ''selection'', PStr (ascii ''light''))])) demo_indexed_world)
       = Inr (PDict [(ascii ''retrieved_sections'', PList [PDict demo_section]),
                     (ascii ''generated_insights'', PStr API_ERROR_MESSAGE)], 200)"
proof -
  let ?noembed = "demo_env\<lparr>embed_content :=
        (\<lambda>model content task_type. Inl (ClientError (ascii ''quota'')))\<rparr>"
  let ?nogen = "demo_env\<lparr>generate_content :=
        (\<lambda>prompt. Inl (ClientError (ascii ''quota'')))\<rparr>"
  let ?sel = "PStr (ascii ''light'')"
  let ?d = "[(ascii ''selection'', ?sel)]"
  have a: "embed_content ?noembed EMBEDDING_MODEL ?sel (ascii ''RETRIEVAL_QUERY'')
             = Inl (ClientError (ascii ''quota''))"
    by simp
  have m: "map_of ?d (ascii ''selection'') = Some ?sel"
    by simp
  have o: "stdout_encodes demo_builtins
             (request_log_line demo_builtins (PStr (take 50 (ascii ''light''))))"
    by (simp add: demo_builtins_def request_log_line_def ascii_def)
  have pe: "py ?noembed = demo_builtins" and pg: "py ?nogen = demo_builtins"
    by (simp_all add: demo_env_def)
  note e1 = retrieval_errors_become_http_500
      [of ?noembed ?sel "ClientError (ascii ''quota'')" demo_indexed_world "[1]"
          "ascii ''light''" ?d "[]" demo_indexed_world]
  from e1 a have 1: "fst (retrieve_relevant_sections ?noembed ?sel 5 demo_indexed_world)
                       = Inl (ClientError (ascii ''quota''))"
    and 2: "fst (get_insights_for_selection ?noembed ?sel demo_indexed_world)
              = Inl (ClientError (ascii ''quota''))"
    by blast+
  from e1 1 m o have 3: "fst (get_insights (Some ?noembed) (Inr (PDict ?d)) demo_indexed_world)
       = Inr (error_body (ascii ''An internal error occurred.''), 500)"
    unfolding pe by blast
  let ?w1 = "demo_indexed_world\<lparr>calls := [EmbedCall EMBEDDING_MODEL ?sel
                                            (ascii ''RETRIEVAL_QUERY''),
                                          QueryCall [[1, 2, 3]] 5]\<rparr>"
  have r: "retrieve_relevant_sections ?nogen ?sel 5 demo_indexed_world
             = (Inr [demo_section], ?w1)"
    by (simp add: retrieve_relevant_sections_def first_metadatas_def log_call_def Let_def
          demo_env_def demo_indexed_world_def)
  have n: "[demo_section] \<noteq> []" by simp
  have g: "generate_content ?nogen (insights_prompt demo_builtins ?sel [demo_section])
             = Inl (ClientError (ascii ''quota''))"
    by simp
  note e2 = retrieval_errors_become_http_500
      [of ?nogen ?sel "ClientError (ascii ''quota'')" demo_indexed_world "[1]"
          "ascii ''light''" ?d "[demo_section]" ?w1]
  from e2 r n g m o have 4: "fst (get_insights (Some ?nogen) (Inr (PDict ?d)) demo_indexed_world)
       = Inr (PDict [(ascii ''retrieved_sections'', PList (map PDict [demo_section])),
                     (ascii ''generated_insights'', PStr API_ERROR_MESSAGE)], 200)"
    unfolding pg by blast
  from a m o 2 3 4 show ?thesis by simp
qed

text \<open>
  Claim C4, as amended. Without a handler - in particular when the constructor
  raised at startup, as it does without an API key - every request is answered with
  status 500, whatever \<^verbatim>\<open>get_json\<close> gave. With a handler, a body that is empty, or
  is an object, an array or a string in which \<^verbatim>\<open>selection\<close> does not occur, is
  answered with status 400 and an error that names the key in quotes. A body that is
  an object with a string or an array under \<^verbatim>\<open>selection\<close>, for which the view's log
  line can be written to standard output, is answered with the handler's dictionary and
  status 200, or with the generic error and status 500 when the handler raises.
\<close>

theorem endpoint_status_codes:
  "(\<forall>body. get_insights None body w =
       (Inr (error_body (ascii ''Backend handler is not initialized.''), 500), w))
   \<and> (RetrievalHandler_init connect google_api_key = Inl e
        \<longrightarrow> retrieval_handler connect google_api_key = None)
   \<and> ((google_api_key = None \<or> google_api_key = Some [])
        \<longrightarrow> retrieval_handler connect google_api_key = None)
   \<and> ((\<not> truthy data \<or> py_contains (ascii ''selection'') data = Inr False)
        \<longrightarrow> get_insights (Some h) (Inr data) w
              = (Inr (error_body MISSING_SELECTION_MESSAGE, 400), w))
   \<and> (map_of d (ascii ''selection'') = None
        \<longrightarrow> get_insights (Some h) (Inr (PDict d)) w
              = (Inr (error_body MISSING_SELECTION_MESSAGE, 400), w))
   \<and> (PStr (ascii ''selection'') \<notin> set xs
        \<longrightarrow> get_insights (Some h) (Inr (PList xs)) w
              = (Inr (error_body MISSING_SELECTION_MESSAGE, 400), w))
   \<and> (\<not> contains_str (ascii ''selection'') t
        \<longrightarrow> get_insights (Some h) (Inr (PStr t)) w
              = (Inr (error_body MISSING_SELECTION_MESSAGE, 400), w))
   \<and> contains_str ([39] @ ascii ''selection'' @ [39]) MISSING_SELECTION_MESSAGE
   \<and> (map_of d (ascii ''selection'') = Some (PStr s)
        \<longrightarrow> stdout_encodes (py h) (request_log_line (py h) (PStr (take 50 s)))
        \<longrightarrow> get_insights (Some h) (Inr (PDict d)) w =
             (case get_insights_for_selection h (PStr s) w of
                (Inl e, w1) \<Rightarrow>
                  (Inr (error_body (ascii ''An internal error occurred.''), 500), w1)
              | (Inr results, w1) \<Rightarrow> (Inr (PDict results, 200), w1)))
   \<and> (map_of d (ascii ''selection'') = Some (PList ys)
        \<longrightarrow> stdout_encodes (py h) (request_log_line (py h) (PList (take 50 ys)))
        \<longrightarrow> get_insights (Some h) (Inr (PDict d)) w =
             (case get_insights_for_selection h (PList ys) w of
                (Inl e, w1) \<Rightarrow>
                  (Inr (error_body (ascii ''An internal error occurred.''), 500), w1)
              | (Inr results, w1) \<Rightarrow> (Inr (PDict results, 200), w1)))"
proof (intro conjI allI impI)
  fix body
  show "get_insights None body w =
       (Inr (error_body (ascii ''Backend handler is not initialized.''), 500), w)"
    by (simp add: get_insights_def)
next
  assume "RetrievalHandler_init connect google_api_key = Inl e"
  then show "retrieval_handler connect google_api_key = None"
    by (simp add: retrieval_handler_def)
next
  assume "google_api_key = None \<or> google_api_key = Some []"
  then show "retrieval_handler connect google_api_key = None"
    by (auto simp: retrieval_handler_def RetrievalHandler_init_def)
next
  assume "\<not> truthy data \<or> py_contains (ascii ''selection'') data = Inr False"
  then show "get_insights (Some h) (Inr data) w
              = (Inr (error_body MISSING_SELECTION_MESSAGE, 400), w)"
    by (rule endpoint_missing_selection)
next
  assume "map_of d (ascii ''selection'') = None"
  then have "py_contains (ascii ''selection'') (PDict d) = Inr False"
    by (simp add: map_of_eq_None_iff)
  then show "get_insights (Some h) (Inr (PDict d)) w
              = (Inr (error_body MISSING_SELECTION_MESSAGE, 400), w)"
    by (simp add: endpoint_missing_selection)
next
  assume "PStr (ascii ''selection'') \<notin> set xs"
  then have "py_contains (ascii ''selection'') (PList xs) = Inr False"
    by simp
  then show "get_insights (Some h) (Inr (PList xs)) w
              = (Inr (error_body MISSING_SELECTION_MESSAGE, 400), w)"
    by (simp add: endpoint_missing_selection)
next
  assume "\<not> contains_str (ascii ''selection'') t"
  then have "py_contains (ascii ''selection'') (PStr t) = Inr False"
    by simp
  then show "get_insights (Some h) (Inr (PStr t)) w
              = (Inr (error_body MISSING_SELECTION_MESSAGE, 400), w)"
    by (simp add: endpoint_missing_selection)
next
  show "contains_str ([39] @ ascii ''selection'' @ [39]) MISSING_SELECTION_MESSAGE"
    by (simp add: MISSING_SELECTION_MESSAGE_def ascii_def)
next
  assume m: "map_of d (ascii ''selection'') = Some (PStr s)"
    and o: "stdout_encodes (py h) (request_log_line (py h) (PStr (take 50 s)))"
  have sl: "py_slice_to 50 (PStr s) = Inr (PStr (take 50 s))" by simp
  show "get_insights (Some h) (Inr (PDict d)) w =
             (case get_insights_for_selection h (PStr s) w of
                (Inl e, w1) \<Rightarrow>
                  (Inr (error_body (ascii ''An internal error occurred.''), 500), w1)
              | (Inr results, w1) \<Rightarrow> (Inr (PDict results, 200), w1))"
    by (rule endpoint_reaches_handler [OF m sl o])
next
  assume m: "map_of d (ascii ''selection'') = Some (PList ys)"
    and o: "stdout_encodes (py h) (request_log_line (py h) (PList (take 50 ys)))"
  have sl: "py_slice_to 50 (PList ys) = Inr (PList (take 50 ys))" by simp
  show "get_insights (Some h) (Inr (PDict d)) w =
             (case get_insights_for_selection h (PList ys) w of
                (Inl e, w1) \<Rightarrow>
                  (Inr (error_body (ascii ''An internal error occurred.''), 500), w1)
              | (Inr results, w1) \<Rightarrow> (Inr (PDict results, 200), w1))"
    by (rule endpoint_reaches_handler [OF m sl o])
qed

theorem endpoint_status_codes_witness:
  "retrieval_handler (\<lambda>k. Inr demo_env) None = None
   \<and> get_insights (retrieval_handler (\<lambda>k. Inr demo_env) None)
        (Inr (PDict [(ascii ''selection'', PStr (ascii ''light''))])) demo_world
       = (Inr (error_body (ascii ''Backend handler is not initialized.''), 500), demo_world)
   \<and> get_insights (Some demo_env) (Inr (PDict [])) demo_world
       = (Inr (error_body MISSING_SELECTION_MESSAGE, 400), demo_world)
   \<and> get_insights (Some demo_env) (Inr (PDict [(ascii ''text'', PStr (ascii ''light''))]))
        demo_world
       = (Inr (error_body MISSING_SELECTION_MESSAGE, 400), demo_world)
   \<and> get_insights (Some demo_env) (Inr (PList [PInt 1, PInt 2])) demo_world
       = (Inr (error_body MISSING_SELECTION_MESSAGE, 400), demo_world)
   \<and> get_insights (Some demo_env) (Inr (PStr (ascii ''light''))) demo_world
       = (Inr (error_body MISSING_SELECTION_MESSAGE, 400), demo_world)
   \<and> stdout_encodes (py demo_env)
        (request_log_line (py demo_env) (PStr (take 50 (ascii ''light''))))
   \<and> fst (get_insights (Some demo_env)
             (Inr (PDict [(ascii ''selection'', PStr (ascii ''light''))])) demo_world)
       = Inr (PDict [(ascii ''retrieved_sections'', PList []),
                     (ascii ''generated_insights'', PStr NO_CONTEXT_MESSAGE)], 200)
   \<and> stdout_encodes (py demo_env)
        (request_log_line (py demo_env) (PList (take 50 [PStr (ascii ''light'')])))
   \<and> fst (get_insights (Some demo_env)
             (Inr (PDict [(ascii ''selection'', PList [PStr (ascii ''light'')])])) demo_world)
       = Inr (PDict [(ascii ''retrieved_sections'', PList []),
                     (ascii ''generated_insights'', PStr NO_CONTEXT_MESSAGE)], 200)"
proof -
  let ?c = "(\<lambda>k. Inr demo_env) :: pystr \<Rightarrow> pyexc + (nat list, demo_store, unit) env"
  let ?d = "[(ascii ''selection'', PStr (ascii ''light''))]"
  let ?dl = "[(ascii ''selection'', PList [PStr (ascii ''light'')])]"
  let ?t = "[(ascii ''text'', PStr (ascii ''light''))]"
  note i1 = endpoint_status_codes
      [of demo_world ?c None ValueError "PDict []" demo_env ?t "[PInt 1, PInt 2]"
          "ascii ''light''" "ascii ''light''" "[PStr (ascii ''light'')]"]
  note i2 = endpoint_status_codes
      [of demo_world ?c None ValueError "PDict []" demo_env ?d "[PInt 1, PInt 2]"
          "ascii ''light''" "ascii ''light''" "[PStr (ascii ''light'')]"]
  note i3 = endpoint_status_codes
      [of demo_world ?c None ValueError "PDict []" demo_env ?dl "[PInt 1, PInt 2]"
          "ascii ''light''" "ascii ''light''" "[PStr (ascii ''light'')]"]
  from i1 have 1: "retrieval_handler ?c None = None" by blast
  from i1 have 2: "get_insights None (Inr (PDict ?d)) demo_world
       = (Inr (error_body (ascii ''Backend handler is not initialized.''), 500), demo_world)"
    by blast
  have f: "\<not> truthy (PDict [])" by simp
  from i1 f have 3: "get_insights (Some demo_env) (Inr (PDict [])) demo_world
       = (Inr (error_body MISSING_SELECTION_MESSAGE, 400), demo_world)"
    by blast
  have k: "map_of ?t (ascii ''selection'') = None" by simp
  from i1 k have 4: "get_insights (Some demo_env) (Inr (PDict ?t)) demo_world
       = (Inr (error_body MISSING_SELECTION_MESSAGE, 400), demo_world)"
    by blast
  have kl: "PStr (ascii ''selection'') \<notin> set [PInt 1, PInt 2]" by simp
  from i1 kl have 5: "get_insights (Some demo_env) (Inr (PList [PInt 1, PInt 2])) demo_world
       = (Inr (error_body MISSING_SELECTION_MESSAGE, 400), demo_world)"
    by blast
  have ks: "\<not> contains_str (ascii ''selection'') (ascii ''light'')"
    by (simp add: ascii_def)
  from i1 ks have 6: "get_insights (Some demo_env) (Inr (PStr (ascii ''light''))) demo_world
       = (Inr (error_body MISSING_SELECTION_MESSAGE, 400), demo_world)"
    by blast
  have m: "map_of ?d (ascii ''selection'') = Some (PStr (ascii ''light''))" by simp
  have o: "stdout_encodes (py demo_env)
             (request_log_line (py demo_env) (PStr (take 50 (ascii ''light''))))"
    by (simp add: demo_env_def demo_builtins_def request_log_line_def ascii_def)
  have g: "fst (get_insights_for_selection demo_env (PStr (ascii ''light'')) demo_world)
       = Inr [(ascii ''retrieved_sections'', PList []),
              (ascii ''generated_insights'', PStr NO_CONTEXT_MESSAGE)]"
    by (simp add: get_insights_for_selection_def retrieve_relevant_sections_def
          generate_insights_def first_metadatas_def log_call_def Let_def demo_env_def
          demo_world_def)
  from i2 m o have "get_insights (Some demo_env) (Inr (PDict ?d)) demo_world =
             (case get_insights_for_selection demo_env (PStr (ascii ''light'')) demo_world of
                (Inl e, w1) \<Rightarrow>
                  (Inr (error_body (ascii ''An internal error occurred.''), 500), w1)
              | (Inr results, w1) \<Rightarrow> (Inr (PDict results, 200), w1))"
    by blast
  with g have 7: "fst (get_insights (Some demo_env) (Inr (PDict ?d)) demo_world)
       = Inr (PDict [(ascii ''retrieved_sections'', PList []),
                     (ascii ''generated_insights'', PStr NO_CONTEXT_MESSAGE)], 200)"
    by (cases "get_insights_for_selection demo_env (PStr (ascii ''light'')) demo_world") auto
  have ml: "map_of ?dl (ascii ''selection'') = Some (PList [PStr (ascii ''light'')])" by simp
  have ol: "stdout_encodes (py demo_env)
             (request_log_line (py demo_env) (PList (take 50 [PStr (ascii ''light'')])))"
    by (simp add: demo_env_def demo_builtins_def request_log_line_def ascii_def)
  have gl: "fst (get_insights_for_selection demo_env (PList [PStr (ascii ''light'')]) demo_world)
       = Inr [(ascii ''retrieved_sections'', PList []),
              (ascii ''generated_insights'', PStr NO_CONTEXT_MESSAGE)]"
    by (simp add: get_insights_for_selection_def retrieve_relevant_sections_def
          generate_insights_def first_metadatas_def log_call_def Let_def demo_env_def
          demo_world_def)
  from i3 ml ol have "get_insights (Some demo_env) (Inr (PDict ?dl)) demo_world =
             (case get_insights_for_selection demo_env (PList [PStr (ascii ''light'')])
                     demo_world of
                (Inl e, w1) \<Rightarrow>
                  (Inr (error_body (ascii ''An internal error occurred.''), 500), w1)
              | (Inr results, w1) \<Rightarrow> (Inr (PDict results, 200), w1))"
    by blast
  with gl have 8: "fst (get_insights (Some demo_env) (Inr (PDict ?dl)) demo_world)
       = Inr (PDict [(ascii ''retrieved_sections'', PList []),
                     (ascii ''generated_insights'', PStr NO_CONTEXT_MESSAGE)], 200)"
    by (cases "get_insights_for_selection demo_env (PList [PStr (ascii ''light'')]) demo_world")
       auto
  from 1 2 3 4 5 6 7 8 o ol show ?thesis by simp
qed

text \<open>
  Three requests to a constructed handler at which the view raises before it calls the
  handler: the selection is the number 5; the body is the number 5; the selection is a
  string that holds the lone surrogate U+D800, which standard output cannot encode.
\<close>

theorem endpoint_raises_before_the_handler:
  "get_insights (Some demo_env) (Inr (PDict [(ascii ''selection'', PInt 5)])) demo_world
     = (Inl TypeError, demo_world)
   \<and> get_insights (Some demo_env) (Inr (PInt 5)) demo_world = (Inl TypeError, demo_world)
   \<and> get_insights (Some demo_env) (Inr (PDict [(ascii ''selection'', PStr [55296])])) demo_world
     = (Inl UnicodeEncodeError, demo_world)"
  by (simp add: get_insights_def py_print_def request_log_line_def Let_def demo_env_def
        demo_builtins_def)

end
